theory Spec2Isabelle
  imports Main "HOL-Library.Sublist"
begin

section \<open>Go values shared by the two source files\<close>

text \<open>
  A Go \<open>error\<close> value is modelled by its \<open>Error()\<close> text: the code only forwards
  errors or formats them with \<open>%v\<close>. \<open>nil\<close> is \<open>None\<close> of \<open>error option\<close>.
  A pointer is an \<open>option\<close> (\<open>None\<close> is \<open>nil\<close>); dereferencing \<open>nil\<close> panics.
\<close>

datatype error = Error string

fun Error_text :: "error \<Rightarrow> string" where
  "Error_text (Error s) = s"

text \<open>
  How a function ends: it returns, the process exits (\<open>os.Exit\<close>), or it panics
  on a nil pointer; the panic names the expression that was nil.
\<close>

datatype 'a outcome = Return 'a | Exit int | Panic string

text \<open>
  \<open>time.Time\<close> is an instant and \<open>time.Duration\<close> a number of nanoseconds; the two
  files only hand them to \<open>pkg.IsPurgeable\<close>.
\<close>

type_synonym Time = int
type_synonym Duration = int

section \<open>The vendor SDK as seen from \<open>pkg/client/image/image.go\<close>\<close>

record Image =
  image_State :: string
  image_ImageID :: "string option"
  image_Name :: "string option"

record ImageReference =
  ref_Name :: "string option"
  ref_CreationDate :: "Time option"

record Images =
  Images :: "ImageReference option list"

record CreateImage =
  body_ImageName :: string
  body_ImageFilename :: string
  body_Region :: string
  body_AccessKey :: string
  body_SecretKey :: string
  body_BucketName :: string
  body_OsType :: string
  body_DiskType :: string
  body_Source :: "string option"

record PcloudCloudinstancesImagesPostOK =
  ok_Payload :: "Image option"

record PcloudCloudinstancesImagesPostCreated =
  created_Payload :: "Image option"

text \<open>
  An SDK object is the record of what its calls answer; a call with the same arguments
  is answered the same way each time. A call returns Go's tuple as it is typed: a pointer
  that may be nil next to an error that may be nil.
  \<open>instance.IBMPIImageClient\<close> answers \<open>Get\<close>, \<open>GetAll\<close> and \<open>Delete\<close>;
  \<open>ibmpisession.IBMPISession\<close> answers the image post with the three values
  \<open>(resp1, resp2, err)\<close> of \<open>PcloudCloudinstancesImagesPost\<close>.
\<close>

record IBMPIImageClient =
  sdk_Get :: "string \<Rightarrow> string \<Rightarrow> Image option \<times> error option"
  sdk_GetAll :: "string \<Rightarrow> Images option \<times> error option"
  sdk_Delete :: "string \<Rightarrow> string \<Rightarrow> error option"

record IBMPISession =
  sdk_ImagesPost :: "string \<Rightarrow> CreateImage \<Rightarrow>
     PcloudCloudinstancesImagesPostOK option \<times> PcloudCloudinstancesImagesPostCreated option \<times> error option"

text \<open>The \<open>Client\<close> struct of image.go.\<close>

record Client =
  session :: "IBMPISession option"
  client :: IBMPIImageClient
  instanceID :: string

text \<open>
  The functions of Go's standard library and of package \<open>pkg\<close> that image.go calls and
  whose code is outside the two files: \<open>regexp.Compile\<close> (a \<open>*Regexp\<close> or an error,
  never both), \<open>(*Regexp).MatchString\<close> on a non-nil receiver, and \<open>pkg.IsPurgeable\<close>.
\<close>

text \<open>A compiled expression, known by the text it was compiled from.\<close>

datatype Regexp = Regexp string

record library =
  regexp_Compile :: "string \<Rightarrow> error + Regexp"
  regexp_MatchString :: "Regexp \<Rightarrow> string \<Rightarrow> bool"
  pkg_IsPurgeable :: "Time \<Rightarrow> Duration \<Rightarrow> Duration \<Rightarrow> bool"

section \<open>Calls that leave the program\<close>

text \<open>
  Every call into an SDK or into another package of the repository is recorded, in the
  order it is made, with whether it failed: it returned a non-nil error, or, for
  \<open>CheckIfObjectExists\<close> (which returns only a bool), it returned false. The two calls
  of the bucket scan carry the position, in the listed resource instances, of the instance
  they are made for.
\<close>

datatype call =
    CallGet string string
  | CallGetAll string
  | CallDelete string string
  | CallImagesPost string CreateImage
  | CallNewClient string
  | CallNewIamAuthenticator string
  | CallNewResourceControllerV2
  | CallListResourceInstances string
  | CallNewS3Client nat string string
  | CallListBuckets nat
  | CallCheckIfObjectExists string string
  | CallListResourceKeys string
  | CallCreateResourceKey string string "(string \<times> bool) list"
  | CallNewPVMClient string string

type_synonym event = "call \<times> bool"

definition errored :: "'a option \<Rightarrow> bool" where
  "errored err = (err \<noteq> None)"

section \<open>\<open>pkg/client/image/image.go\<close>\<close>

definition Get :: "Client \<Rightarrow> string \<Rightarrow> event list \<times> (Image option \<times> error option)" where
  "Get c id' =
     (let r = sdk_Get (client c) id' (instanceID c)
      in ([(CallGet id' (instanceID c), errored (snd r))], r))"

definition GetAll :: "Client \<Rightarrow> event list \<times> (Images option \<times> error option)" where
  "GetAll c =
     (let r = sdk_GetAll (client c) (instanceID c)
      in ([(CallGetAll (instanceID c), errored (snd r))], r))"

definition Delete :: "Client \<Rightarrow> string \<Rightarrow> event list \<times> error option" where
  "Delete c id' =
     (let r = sdk_Delete (client c) id' (instanceID c)
      in ([(CallDelete id' (instanceID c), errored r)], r))"

text \<open>\<open>var body = models.CreateImage{...}\<close> with \<open>Source: &source\<close>, \<open>source = "url"\<close>.\<close>

definition request_body ::
  "string \<Rightarrow> string \<Rightarrow> string \<Rightarrow> string \<Rightarrow> string \<Rightarrow> string \<Rightarrow> string \<Rightarrow> string \<Rightarrow> CreateImage" where
  "request_body imageName s3Filename region accessKey secretKey bucketName osType storageType =
     (let source = ''url''
      in \<lparr> body_ImageName = imageName, body_ImageFilename = s3Filename,
           body_Region = region, body_AccessKey = accessKey, body_SecretKey = secretKey,
           body_BucketName = bucketName, body_OsType = osType, body_DiskType = storageType,
           body_Source = Some source \<rparr>)"

definition ImportImage ::
  "Client \<Rightarrow> string \<Rightarrow> string \<Rightarrow> string \<Rightarrow> string \<Rightarrow> string \<Rightarrow> string \<Rightarrow> string \<Rightarrow> string \<Rightarrow> string
     \<Rightarrow> event list \<times> (Image option \<times> error option) outcome" where
  "ImportImage c instanceID' imageName s3Filename region accessKey secretKey bucketName osType storageType =
     (let body = request_body imageName s3Filename region accessKey secretKey bucketName osType storageType
      in case session c of
           None \<Rightarrow> ([], Panic ''c.session'')
         | Some sess \<Rightarrow>
             (case sdk_ImagesPost sess instanceID' body of (resp1, resp2, err) \<Rightarrow>
                ([(CallImagesPost instanceID' body, errored err)],
                 (case err of
                    Some e \<Rightarrow> Return (None, Some e)
                  | None \<Rightarrow>
                      (case resp1 of
                         Some ok \<Rightarrow> Return (None, Some (Error ''Failed to initiate the import job''))
                       | None \<Rightarrow>
                           (case resp2 of
                              None \<Rightarrow> Panic ''resp2''
                            | Some created \<Rightarrow>
                                (case created_Payload created of
                                   None \<Rightarrow> Panic ''resp2.Payload''
                                 | Some payload \<Rightarrow>
                                     if image_State payload = ''queued'' \<and> image_ImageID payload = None
                                     then Panic ''resp2.Payload.ImageID''
                                     else Return (Some payload, None))))))))"

text \<open>
  The body of the loop of \<open>GetAllPurgeable\<close> for one image: \<open>Return True\<close> when the
  image is appended, \<open>Return False\<close> at a \<open>continue\<close>. The error of \<open>regexp.Compile\<close>
  is dropped and the match is called on what \<open>Compile\<close> returned.
\<close>

definition purgeable_date ::
  "library \<Rightarrow> Duration \<Rightarrow> Duration \<Rightarrow> ImageReference option \<Rightarrow> bool outcome" where
  "purgeable_date lib before since image' =
     (case image' of
        None \<Rightarrow> Panic ''image''
      | Some img \<Rightarrow>
          (case ref_CreationDate img of
             None \<Rightarrow> Panic ''image.CreationDate''
           | Some d \<Rightarrow> Return (pkg_IsPurgeable lib d before since)))"

definition candidate ::
  "library \<Rightarrow> Duration \<Rightarrow> Duration \<Rightarrow> string \<Rightarrow> ImageReference option \<Rightarrow> bool outcome" where
  "candidate lib before since expr image' =
     (if expr \<noteq> '''' then
        (case image' of
           None \<Rightarrow> Panic ''image''
         | Some img \<Rightarrow>
             (case ref_Name img of
                None \<Rightarrow> Panic ''image.Name''
              | Some name \<Rightarrow>
                  (case regexp_Compile lib expr of
                     Inl e \<Rightarrow> Panic ''r''
                   | Inr r \<Rightarrow>
                       if \<not> regexp_MatchString lib r name then Return False
                       else purgeable_date lib before since image')))
      else purgeable_date lib before since image')"

fun candidates_loop ::
  "library \<Rightarrow> Duration \<Rightarrow> Duration \<Rightarrow> string \<Rightarrow> ImageReference option list
     \<Rightarrow> ImageReference option list \<Rightarrow> (ImageReference option list \<times> error option) outcome" where
  "candidates_loop lib before since expr [] candidates = Return (candidates, None)"
| "candidates_loop lib before since expr (image' # rest) candidates =
     (case candidate lib before since expr image' of
        Panic p \<Rightarrow> Panic p
      | Exit n \<Rightarrow> Exit n
      | Return False \<Rightarrow> candidates_loop lib before since expr rest candidates
      | Return True \<Rightarrow> candidates_loop lib before since expr rest (candidates @ [image']))"

definition GetAllPurgeable ::
  "library \<Rightarrow> Client \<Rightarrow> Duration \<Rightarrow> Duration \<Rightarrow> string
     \<Rightarrow> event list \<times> (ImageReference option list \<times> error option) outcome" where
  "GetAllPurgeable lib c before since expr =
     (case GetAll c of (calls, images, err) \<Rightarrow>
        (calls,
         (case err of
            Some e \<Rightarrow>
              Return ([], Some (Error (''failed to get the list of instances: '' @ Error_text e)))
          | None \<Rightarrow>
              (case images of
                 None \<Rightarrow> Panic ''images''
               | Some imgs \<Rightarrow> candidates_loop lib before since expr (Images imgs) []))))"


section \<open>The SDKs and packages as seen from \<open>cmd/image/import/import.go\<close>\<close>

text \<open>\<open>pkg.ImageCMDOptions\<close>, with the fields the flags of \<open>init\<close> are bound to.\<close>

record ImageCMDOptions =
  InstanceName :: string
  InstanceID :: string
  BucketName :: string
  Region :: string
  ImageFilename :: string
  AccessKey :: string
  SecretKey :: string
  ImageName :: string
  OsType :: string
  StorageType :: string
  ServiceCredName :: string

record ResourceInstance =
  ri_Crn :: "string option"
  ri_Name :: "string option"
  ri_ID :: "string option"

record ResourceInstancesList =
  ril_Resources :: "ResourceInstance list"

record Bucket =
  bucket_Name :: "string option"

record ListBucketsOutput =
  lbo_Buckets :: "Bucket option list"

text \<open>A value of type \<open>interface{}\<close> as JSON decoding produces it; \<open>None\<close> is the nil interface.\<close>

datatype json =
    JNull
  | JBool bool
  | JNumber int
  | JString string
  | JArray "json list"
  | JObject "(string \<times> json) list"

record Credentials =
  cred_GetProperty :: "string \<Rightarrow> json option"

record ResourceKey =
  key_Credentials :: "Credentials option"

record ResourceKeysList =
  rkl_Resources :: "ResourceKey list"

text \<open>The anonymous struct \<open>h\<close> that the credential is unmarshalled into.\<close>

record hmac_keys =
  AccessKeyID :: string
  SecretKeyID :: string

text \<open>
  \<open>client.S3Client\<close>: what \<open>S3Session.ListBuckets(nil)\<close> and \<open>CheckIfObjectExists\<close>
  answer. \<open>client.ResourceControllerV2\<close>: what \<open>ListResourceInstances\<close> (by type),
  \<open>ListResourceKeys\<close> (by name) and \<open>CreateResourceKey\<close> (name, source, parameters)
  answer; the \<open>*core.DetailedResponse\<close> they also return is dropped by the code.
\<close>

record S3Client =
  s3_ListBuckets :: "ListBucketsOutput option \<times> error option"
  s3_CheckIfObjectExists :: "string \<Rightarrow> string \<Rightarrow> bool"

record ResourceControllerV2 =
  rc_ListResourceInstances :: "string \<Rightarrow> ResourceInstancesList option \<times> error option"
  rc_ListResourceKeys :: "string \<Rightarrow> ResourceKeysList option \<times> error option"
  rc_CreateResourceKey ::
    "string \<Rightarrow> string \<Rightarrow> (string \<times> bool) list \<Rightarrow> ResourceKey option \<times> error option"

record PVMClient =
  pvm_ImgClient :: "Client option"
  pvm_InstanceID :: string

text \<open>
  \<open>bxCli\<close> and \<open>auth\<close> are only handed on to other constructors; they are opaque
  handles.
\<close>

type_synonym handle = nat

text \<open>
  The functions import.go calls whose code is outside the two files: the constructors of
  package \<open>client\<close> and of the IBM core SDK, \<open>strings.ToLower\<close>, and \<open>json.Marshal\<close>
  and \<open>json.Unmarshal\<close> (into \<open>h\<close>, returned with the error).
\<close>

record platform =
  client_NewClient :: "string \<Rightarrow> handle option \<times> error option"
  core_NewIamAuthenticator :: "string \<Rightarrow> handle option \<times> error option"
  client_NewResourceControllerV2 :: "handle option \<Rightarrow> ResourceControllerV2 option \<times> error option"
  client_NewS3Client :: "handle option \<Rightarrow> string \<Rightarrow> string \<Rightarrow> S3Client option \<times> error option"
  client_NewPVMClient :: "handle option \<Rightarrow> string \<Rightarrow> string \<Rightarrow> PVMClient option \<times> error option"
  strings_ToLower :: "string \<Rightarrow> string"
  json_Marshal :: "json option \<Rightarrow> string \<times> error option"
  json_Unmarshal :: "string \<Rightarrow> hmac_keys \<times> error option"

text \<open>\<open>strings.Contains\<close>: \<open>substr\<close> occurs in \<open>s\<close> as a run of consecutive bytes.\<close>

definition strings_Contains :: "string \<Rightarrow> string \<Rightarrow> bool" where
  "strings_Contains s substr = sublist substr s"

text \<open>
  Modelled from the spec: \<open>utils.Contains\<close> of \<open>pkg/utils\<close>, which is not among the
  source files; the flag check is an allow-list test, so it reports whether the string is
  an element of the slice.
\<close>

definition utils_Contains :: "string list \<Rightarrow> string \<Rightarrow> bool" where
  "utils_Contains xs s = (s \<in> set xs)"

section \<open>\<open>cmd/image/import/import.go\<close>\<close>

definition validOsType :: "string list" where
  "validOsType = [''aix'', ''ibmi'', ''redhat'', ''sles'']"

definition validStorageType :: "string list" where
  "validStorageType = [''tier3'', ''tier1'']"

text \<open>An event, then the events and the result of what follows it.\<close>

definition logged :: "event \<Rightarrow> event list \<times> 'a \<Rightarrow> event list \<times> 'a" where
  "logged ev r = (ev # fst r, snd r)"

text \<open>
  The inner loop of \<open>cosOfBucket\<close> over \<open>buckets.Buckets\<close>: \<open>Return True\<close> when a
  bucket is named \<open>opt.BucketName\<close>, \<open>Return False\<close> when the loop runs out.
\<close>

fun bucket_listed :: "string \<Rightarrow> Bucket option list \<Rightarrow> bool outcome" where
  "bucket_listed bucketName [] = Return False"
| "bucket_listed bucketName (bucket # rest) =
     (case bucket of
        None \<Rightarrow> Panic ''bucket''
      | Some b \<Rightarrow>
          (case bucket_Name b of
             None \<Rightarrow> Panic ''bucket.Name''
           | Some name \<Rightarrow> if name = bucketName then Return True else bucket_listed bucketName rest))"

text \<open>
  The body of the outer loop of \<open>cosOfBucket\<close> for the resource at position \<open>i\<close>.
  \<open>s3client\<close> is the variable of \<open>RunE\<close> that the closure assigns; the body returns
  its new value with \<open>True\<close> at \<open>return &resource\<close> and with \<open>False\<close> when the loop
  goes on to the next resource.
\<close>

definition cos_probe ::
  "platform \<Rightarrow> handle option \<Rightarrow> ImageCMDOptions \<Rightarrow> nat \<Rightarrow> S3Client option \<Rightarrow> ResourceInstance
     \<Rightarrow> event list \<times> (bool \<times> S3Client option) outcome" where
  "cos_probe p bxCli opt i s3client resource =
     (case ri_Crn resource of
        None \<Rightarrow> ([], Panic ''resource.Crn'')
      | Some crn \<Rightarrow>
          if strings_Contains crn ''cloud-object-storage'' then
            (case ri_Name resource of
               None \<Rightarrow> ([], Panic ''resource.Name'')
             | Some name \<Rightarrow>
                 (case client_NewS3Client p bxCli name (Region opt) of (s3client', err) \<Rightarrow>
                    logged (CallNewS3Client i name (Region opt), errored err)
                      (case err of
                         Some e \<Rightarrow> ([], Return (False, s3client'))
                       | None \<Rightarrow>
                           (case s3client' of
                              None \<Rightarrow> ([], Panic ''s3client'')
                            | Some s3 \<Rightarrow>
                                (case s3_ListBuckets s3 of (buckets, err') \<Rightarrow>
                                   logged (CallListBuckets i, errored err')
                                     (case err' of
                                        Some e \<Rightarrow> ([], Return (False, s3client'))
                                      | None \<Rightarrow>
                                          (case buckets of
                                             None \<Rightarrow> ([], Panic ''buckets'')
                                           | Some bs \<Rightarrow>
                                               (case bucket_listed (BucketName opt) (lbo_Buckets bs) of
                                                  Panic s \<Rightarrow> ([], Panic s)
                                                | Exit n \<Rightarrow> ([], Exit n)
                                                | Return listed \<Rightarrow> ([], Return (listed, s3client'))))))))))
          else ([], Return (False, s3client)))"

text \<open>
  The closure \<open>cosOfBucket\<close>: the resource found (\<open>None\<close> is the \<open>return nil\<close> after the
  loop) with the final value of \<open>s3client\<close>.
\<close>

fun cosOfBucket ::
  "platform \<Rightarrow> handle option \<Rightarrow> ImageCMDOptions \<Rightarrow> nat \<Rightarrow> S3Client option \<Rightarrow> ResourceInstance list
     \<Rightarrow> event list \<times> (ResourceInstance option \<times> S3Client option) outcome" where
  "cosOfBucket p bxCli opt i s3client [] = ([], Return (None, s3client))"
| "cosOfBucket p bxCli opt i s3client (resource # rest) =
     (case cos_probe p bxCli opt i s3client resource of
        (evs, Panic s) \<Rightarrow> (evs, Panic s)
      | (evs, Exit n) \<Rightarrow> (evs, Exit n)
      | (evs, Return (True, s3client')) \<Rightarrow> (evs, Return (Some resource, s3client'))
      | (evs, Return (False, s3client')) \<Rightarrow>
          (case cosOfBucket p bxCli opt (Suc i) s3client' rest of
             (evs', r) \<Rightarrow> (evs @ evs', r)))"

text \<open>Lines 164 to 176: the PowerVS client and the import.\<close>

definition import_image ::
  "platform \<Rightarrow> ImageCMDOptions \<Rightarrow> handle option \<Rightarrow> string \<Rightarrow> string \<Rightarrow> event list \<times> error option outcome" where
  "import_image p opt bxCli accessKey secretKey =
     (case client_NewPVMClient p bxCli (InstanceID opt) (InstanceName opt) of (pvmclient, err) \<Rightarrow>
        logged (CallNewPVMClient (InstanceID opt) (InstanceName opt), errored err)
          (case err of
             Some e \<Rightarrow> ([], Return (Some e))
           | None \<Rightarrow>
               (case pvmclient of
                  None \<Rightarrow> ([], Panic ''pvmclient'')
                | Some pvm \<Rightarrow>
                    (case pvm_ImgClient pvm of
                       None \<Rightarrow> ([], Panic ''pvmclient.ImgClient'')
                     | Some c \<Rightarrow>
                         (case ImportImage c (pvm_InstanceID pvm) (ImageName opt) (ImageFilename opt)
                                 (Region opt) accessKey secretKey (BucketName opt)
                                 (strings_ToLower p (OsType opt)) (strings_ToLower p (StorageType opt)) of
                            (evs, Panic s) \<Rightarrow> (evs, Panic s)
                          | (evs, Exit n) \<Rightarrow> (evs, Exit n)
                          | (evs, Return (image', err')) \<Rightarrow>
                              (evs,
                               (case err' of
                                  Some e \<Rightarrow> Return (Some e)
                                | None \<Rightarrow>
                                    (case image' of
                                       None \<Rightarrow> Panic ''image''
                                     | Some im \<Rightarrow>
                                         (case image_Name im of
                                            None \<Rightarrow> Panic ''image.Name''
                                          | Some name \<Rightarrow> Return None)))))))))"

text \<open>
  Lines 144 to 160: the access and secret key read from the credential. \<open>Inl\<close> is the
  error \<open>RunE\<close> returns, \<open>Inr\<close> the pair assigned to \<open>opt.AccessKey\<close> and \<open>opt.SecretKey\<close>.
\<close>

definition hmac_of_credential ::
  "platform \<Rightarrow> Credentials option \<Rightarrow> (error + string \<times> string) outcome" where
  "hmac_of_credential p cred =
     (case cred of
        None \<Rightarrow> Panic ''cred''
      | Some cr \<Rightarrow>
          (case json_Marshal p (cred_GetProperty cr ''cos_hmac_keys'') of (jsonString, err) \<Rightarrow>
             (case err of
                Some e \<Rightarrow> Return (Inl e)
              | None \<Rightarrow>
                  (case json_Unmarshal p jsonString of (h, err') \<Rightarrow>
                     (case err' of
                        Some e \<Rightarrow> Return (Inl e)
                      | None \<Rightarrow> Return (Inr (AccessKeyID h, SecretKeyID h)))))))"

text \<open>Lines 116 to 162, for the COS instance found, whose ID is \<open>cosID\<close>.\<close>

definition service_credential ::
  "platform \<Rightarrow> ImageCMDOptions \<Rightarrow> ResourceControllerV2 \<Rightarrow> string
     \<Rightarrow> event list \<times> (error + string \<times> string) outcome" where
  "service_credential p opt rc cosID =
     (if AccessKey opt = '''' \<or> SecretKey opt = '''' then
        (case rc_ListResourceKeys rc (ServiceCredName opt) of (keys, err) \<Rightarrow>
           logged (CallListResourceKeys (ServiceCredName opt), errored err)
             (case err of
                Some e \<Rightarrow>
                  ([], Return (Inl (Error (''failed to list the service credentials: '' @ Error_text e))))
              | None \<Rightarrow>
                  (case keys of
                     None \<Rightarrow> ([], Panic ''keys'')
                   | Some ks \<Rightarrow>
                       (case rkl_Resources ks of
                          [] \<Rightarrow>
                            (case rc_CreateResourceKey rc (ServiceCredName opt) cosID [(''HMAC'', True)] of
                               (key, err') \<Rightarrow>
                                 logged (CallCreateResourceKey (ServiceCredName opt) cosID [(''HMAC'', True)],
                                         errored err')
                                   (case err' of
                                      Some e \<Rightarrow> ([], Return (Inl e))
                                    | None \<Rightarrow>
                                        (case key of
                                           None \<Rightarrow> ([], Panic ''key'')
                                         | Some k \<Rightarrow> ([], hmac_of_credential p (key_Credentials k)))))
                        | k # others \<Rightarrow> ([], hmac_of_credential p (key_Credentials k))))))
      else ([], Return (Inr (AccessKey opt, SecretKey opt))))"

text \<open>Lines 104 to 176: what \<open>RunE\<close> does with the result of \<open>cosOfBucket\<close>.\<close>

definition import_from ::
  "platform \<Rightarrow> ImageCMDOptions \<Rightarrow> handle option \<Rightarrow> ResourceControllerV2
     \<Rightarrow> ResourceInstance option \<Rightarrow> S3Client option \<Rightarrow> event list \<times> error option outcome" where
  "import_from p opt bxCli rc found s3client =
     (case found of
        None \<Rightarrow>
          ([], Return (Some (Error (''failed to find the COS instance for the bucket mentioned: ''
                                     @ BucketName opt))))
      | Some cos \<Rightarrow>
          (case ri_Name cos of
             None \<Rightarrow> ([], Panic ''cosOfBucket.Name'')
           | Some cosName \<Rightarrow>
               (case ri_ID cos of
                  None \<Rightarrow> ([], Panic ''cosOfBucket.ID'')
                | Some cosID \<Rightarrow>
                    (case s3client of
                       None \<Rightarrow> ([], Panic ''s3client'')
                     | Some s3 \<Rightarrow>
                         (let objectExists = s3_CheckIfObjectExists s3 (BucketName opt) (ImageFilename opt)
                          in logged (CallCheckIfObjectExists (BucketName opt) (ImageFilename opt),
                                     \<not> objectExists)
                               (if \<not> objectExists then
                                  ([], Return (Some (Error (''failed to found the object '' @ ImageFilename opt
                                                            @ '' in '' @ BucketName opt @ '' bucket''))))
                                else
                                  (case service_credential p opt rc cosID of
                                     (evs, Panic s) \<Rightarrow> (evs, Panic s)
                                   | (evs, Exit n) \<Rightarrow> (evs, Exit n)
                                   | (evs, Return (Inl e)) \<Rightarrow> (evs, Return (Some e))
                                   | (evs, Return (Inr (accessKey, secretKey))) \<Rightarrow>
                                       (case import_image p opt bxCli accessKey secretKey of
                                          (evs', r) \<Rightarrow> (evs @ evs', r)))))))))"

text \<open>
  \<open>Cmd.RunE\<close>, for the options \<open>pkg.ImageCMDOptions\<close> and the key \<open>pkg.Options.APIKey\<close>:
  the calls made and how the command ends (\<open>Return None\<close> is \<open>return nil\<close>).
\<close>

definition RunE :: "platform \<Rightarrow> ImageCMDOptions \<Rightarrow> string \<Rightarrow> event list \<times> error option outcome" where
  "RunE p opt apikey =
     (if OsType opt \<noteq> '''' \<and> \<not> utils_Contains validOsType (strings_ToLower p (OsType opt))
      then ([], Exit 1)
      else if \<not> utils_Contains validStorageType (strings_ToLower p (StorageType opt))
      then ([], Exit 1)
      else
        (case client_NewClient p apikey of (bxCli, err) \<Rightarrow>
           logged (CallNewClient apikey, errored err)
             (case err of
                Some e \<Rightarrow> ([], Return (Some e))
              | None \<Rightarrow>
                  (case core_NewIamAuthenticator p apikey of (auth, err1) \<Rightarrow>
                     logged (CallNewIamAuthenticator apikey, errored err1)
                       (case err1 of
                          Some e \<Rightarrow> ([], Return (Some e))
                        | None \<Rightarrow>
                            (case client_NewResourceControllerV2 p auth of (resourceController, err2) \<Rightarrow>
                               logged (CallNewResourceControllerV2, errored err2)
                                 (case err2 of
                                    Some e \<Rightarrow> ([], Return (Some e))
                                  | None \<Rightarrow>
                                      (case resourceController of
                                         None \<Rightarrow> ([], Panic ''resourceController'')
                                       | Some rc \<Rightarrow>
                                           (case rc_ListResourceInstances rc ''service_instance'' of
                                              (instances, err3) \<Rightarrow>
                                                logged (CallListResourceInstances ''service_instance'',
                                                        errored err3)
                                                  (case err3 of
                                                     Some e \<Rightarrow> ([], Return (Some e))
                                                   | None \<Rightarrow>
                                                       (case instances of
                                                          None \<Rightarrow> ([], Panic ''instances'')
                                                        | Some insts \<Rightarrow>
                                                            (case cosOfBucket p bxCli opt 0 None
                                                                    (ril_Resources insts) of
                                                               (evs, Panic s) \<Rightarrow> (evs, Panic s)
                                                             | (evs, Exit n) \<Rightarrow> (evs, Exit n)
                                                             | (evs, Return (found, s3client)) \<Rightarrow>
                                                                 (case import_from p opt bxCli rc found s3client of
                                                                    (evs', r) \<Rightarrow> (evs @ evs', r))))))))))))))"


section \<open>Notions the properties are stated with\<close>

text \<open>
  An image of the list can be filtered without a panic: the pointer is not nil, the
  creation date is set and, when a pattern is given, so is the name.
\<close>

definition well_formed :: "string \<Rightarrow> ImageReference option \<Rightarrow> bool" where
  "well_formed expr image' =
     (case image' of
        None \<Rightarrow> False
      | Some img \<Rightarrow> ref_CreationDate img \<noteq> None \<and> (expr = '''' \<or> ref_Name img \<noteq> None))"

text \<open>
  The filter in the words of the specification: the name matches the pattern, when one
  is given, and \<open>IsPurgeable\<close> accepts the creation date.
\<close>

definition selected ::
  "library \<Rightarrow> Regexp \<Rightarrow> Duration \<Rightarrow> Duration \<Rightarrow> string \<Rightarrow> ImageReference option \<Rightarrow> bool" where
  "selected lib r before since expr image' =
     (case image' of
        None \<Rightarrow> False
      | Some img \<Rightarrow>
          (expr = '''' \<or> (case ref_Name img of None \<Rightarrow> False | Some name \<Rightarrow> regexp_MatchString lib r name))
          \<and> (case ref_CreationDate img of
                None \<Rightarrow> False
              | Some d \<Rightarrow> pkg_IsPurgeable lib d before since))"


text \<open>
  The position, in the listed resource instances, of the instance a call of the bucket
  scan is made for; \<open>None\<close> for every other call.
\<close>

fun scan_position :: "call \<Rightarrow> nat option" where
  "scan_position (CallNewS3Client i name region) = Some i"
| "scan_position (CallListBuckets i) = Some i"
| "scan_position c = None"

text \<open>
  The four calls before the bucket scan, all successful, and what it takes for \<open>RunE\<close>
  to reach the scan: both flags pass the check and the four calls return no error, the
  last two with a controller \<open>rc\<close> and the list \<open>resources\<close>.
\<close>

definition setup_events :: "string \<Rightarrow> event list" where
  "setup_events apikey =
     [(CallNewClient apikey, False), (CallNewIamAuthenticator apikey, False),
      (CallNewResourceControllerV2, False), (CallListResourceInstances ''service_instance'', False)]"

definition scans ::
  "platform \<Rightarrow> ImageCMDOptions \<Rightarrow> string \<Rightarrow> handle option \<Rightarrow> ResourceControllerV2 \<Rightarrow> ResourceInstance list \<Rightarrow> bool" where
  "scans p opt apikey bxCli rc resources =
     ((OsType opt = '''' \<or> strings_ToLower p (OsType opt) \<in> set validOsType)
      \<and> strings_ToLower p (StorageType opt) \<in> set validStorageType
      \<and> (\<exists>auth insts.
            client_NewClient p apikey = (bxCli, None)
            \<and> core_NewIamAuthenticator p apikey = (auth, None)
            \<and> client_NewResourceControllerV2 p auth = (Some rc, None)
            \<and> rc_ListResourceInstances rc ''service_instance'' = (Some insts, None)
            \<and> ril_Resources insts = resources))"

text \<open>
  The owner of the bucket in the words of the specification: an instance whose CRN
  contains \<open>cloud-object-storage\<close>, for which the client is created and the buckets are
  listed without error, and whose bucket list has a bucket named exactly
  \<open>opt.BucketName\<close>.
\<close>

definition bucket_named :: "string \<Rightarrow> Bucket option \<Rightarrow> bool" where
  "bucket_named bucketName bucket =
     (case bucket of None \<Rightarrow> False | Some b \<Rightarrow> bucket_Name b = Some bucketName)"

definition owns_bucket :: "platform \<Rightarrow> handle option \<Rightarrow> ImageCMDOptions \<Rightarrow> ResourceInstance \<Rightarrow> bool" where
  "owns_bucket p bxCli opt resource =
     (case (ri_Crn resource, ri_Name resource) of
        (Some crn, Some name) \<Rightarrow>
          strings_Contains crn ''cloud-object-storage''
          \<and> (case client_NewS3Client p bxCli name (Region opt) of
                (Some s3, None) \<Rightarrow>
                  (case s3_ListBuckets s3 of
                     (Some buckets, None) \<Rightarrow> list_ex (bucket_named (BucketName opt)) (lbo_Buckets buckets)
                   | _ \<Rightarrow> False)
              | _ \<Rightarrow> False)
      | _ \<Rightarrow> False)"

text \<open>
  The positions the calls of a trace are made for, in the order of the calls, and the
  instances the scan considers: those whose CRN contains \<open>cloud-object-storage\<close>.
\<close>

definition visited :: "event list \<Rightarrow> nat list" where
  "visited evs = List.map_filter (\<lambda>ev. scan_position (fst ev)) evs"

definition is_cos :: "ResourceInstance \<Rightarrow> bool" where
  "is_cos resource =
     (case ri_Crn resource of None \<Rightarrow> False | Some crn \<Rightarrow> strings_Contains crn ''cloud-object-storage'')"

text \<open>
  A resource instance the scan reads without a panic: its CRN is set and, when it is a
  COS instance, so are its name, the client and the bucket list returned without error,
  and the name of every bucket.
\<close>

definition has_name :: "Bucket option \<Rightarrow> bool" where
  "has_name bucket = (case bucket of None \<Rightarrow> False | Some b \<Rightarrow> bucket_Name b \<noteq> None)"

definition sound_resource :: "platform \<Rightarrow> handle option \<Rightarrow> ImageCMDOptions \<Rightarrow> ResourceInstance \<Rightarrow> bool" where
  "sound_resource p bxCli opt resource =
     (case ri_Crn resource of
        None \<Rightarrow> False
      | Some crn \<Rightarrow>
          \<not> strings_Contains crn ''cloud-object-storage''
          \<or> (case ri_Name resource of
                None \<Rightarrow> False
              | Some name \<Rightarrow>
                  (case client_NewS3Client p bxCli name (Region opt) of
                     (s3client, Some e) \<Rightarrow> True
                   | (None, None) \<Rightarrow> False
                   | (Some s3, None) \<Rightarrow>
                       (case s3_ListBuckets s3 of
                          (buckets, Some e) \<Rightarrow> True
                        | (None, None) \<Rightarrow> False
                        | (Some buckets, None) \<Rightarrow>
                            list_all has_name (lbo_Buckets buckets)))))"

text \<open>
  The calls that come after the scan (the object check, the service credential, the
  PowerVS client and the image post), and among them those that provision the credential
  or import the image.
\<close>

fun after_scan :: "call \<Rightarrow> bool" where
  "after_scan (CallCheckIfObjectExists bucket object) = True"
| "after_scan (CallListResourceKeys name) = True"
| "after_scan (CallCreateResourceKey name source parameters) = True"
| "after_scan (CallNewPVMClient id' name) = True"
| "after_scan (CallImagesPost cloudInstanceID body) = True"
| "after_scan c = False"

fun provisions_or_imports :: "call \<Rightarrow> bool" where
  "provisions_or_imports (CallListResourceKeys name) = True"
| "provisions_or_imports (CallCreateResourceKey name source parameters) = True"
| "provisions_or_imports (CallNewPVMClient id' name) = True"
| "provisions_or_imports (CallImagesPost cloudInstanceID body) = True"
| "provisions_or_imports c = False"

text \<open>
  The credential in the words of the specification: the first listed resource key's when
  one is listed, otherwise that of the key created with the name
  \<open>opt.ServiceCredName\<close> on the COS instance with \<open>HMAC\<close> set.
\<close>

definition credential_used ::
  "ResourceControllerV2 \<Rightarrow> ImageCMDOptions \<Rightarrow> string \<Rightarrow> ResourceKeysList \<Rightarrow> Credentials option" where
  "credential_used rc opt cosID keys =
     (case rkl_Resources keys of
        k # others \<Rightarrow> key_Credentials k
      | [] \<Rightarrow>
          (case rc_CreateResourceKey rc (ServiceCredName opt) cosID [(''HMAC'', True)] of
             (Some key, None) \<Rightarrow> key_Credentials key
           | _ \<Rightarrow> None))"

text \<open>
  No call is retried: a call that failed is the last call made, or it is a call of the
  bucket scan and the next call is \<open>NewS3Client\<close> for an instance further down the
  list.
\<close>

fun skipped_to :: "call \<Rightarrow> call \<Rightarrow> bool" where
  "skipped_to c (CallNewS3Client j name region) = (case scan_position c of None \<Rightarrow> False | Some i \<Rightarrow> i < j)"
| "skipped_to c c' = False"

fun no_retry :: "event list \<Rightarrow> bool" where
  "no_retry [] = True"
| "no_retry [ev] = True"
| "no_retry ((c, failed) # (c', failed') # rest) =
     ((failed \<longrightarrow> skipped_to c c') \<and> no_retry ((c', failed') # rest))"

section \<open>Concrete libraries, clients and responses\<close>

text \<open>
  A library that behaves like Go's on the patterns used below: \<open>(\<close> does not compile
  (a missing closing parenthesis), a pattern without metacharacters matches the strings
  that contain it, and an image is purgeable when it was created more than \<open>before\<close>
  ahead of the instant 1000.
\<close>

definition literal_library :: library where
  "literal_library =
     \<lparr> regexp_Compile = (\<lambda>expr. if expr = ''('' then Inl (Error ''error parsing regexp'')
                                else Inr (Regexp expr)),
       regexp_MatchString = (\<lambda>r s. case r of Regexp expr \<Rightarrow> sublist expr s),
       pkg_IsPurgeable = (\<lambda>candidate before since. candidate + before < 1000) \<rparr>"

definition rhel83 :: ImageReference where
  "rhel83 = \<lparr> ref_Name = Some ''rhel-83'', ref_CreationDate = Some 10 \<rparr>"

definition centos8 :: ImageReference where
  "centos8 = \<lparr> ref_Name = Some ''centos-8'', ref_CreationDate = Some 20 \<rparr>"

definition rhel84 :: ImageReference where
  "rhel84 = \<lparr> ref_Name = Some ''rhel-84'', ref_CreationDate = Some 990 \<rparr>"

definition three_images :: Images where
  "three_images = \<lparr> Images = [Some rhel83, Some centos8, Some rhel84] \<rparr>"

text \<open>A session whose image post answers with the given three values.\<close>

definition session_answering ::
  "PcloudCloudinstancesImagesPostOK option \<Rightarrow> PcloudCloudinstancesImagesPostCreated option
     \<Rightarrow> error option \<Rightarrow> IBMPISession" where
  "session_answering resp1 resp2 err = \<lparr> sdk_ImagesPost = (\<lambda>cloudInstanceID body. (resp1, resp2, err)) \<rparr>"

text \<open>A client of instance \<open>pvs-1\<close> whose \<open>GetAll\<close> and image post answer as given.\<close>

definition client_answering ::
  "Images option \<times> error option \<Rightarrow> IBMPISession \<Rightarrow> Client" where
  "client_answering images sess =
     \<lparr> session = Some sess,
       client = \<lparr> sdk_Get = (\<lambda>id' cloudInstanceID. (None, Some (Error ''image not found''))),
                  sdk_GetAll = (\<lambda>cloudInstanceID. images),
                  sdk_Delete = (\<lambda>id' cloudInstanceID. None) \<rparr>,
       instanceID = ''pvs-1'' \<rparr>"

definition queued_image :: Image where
  "queued_image = \<lparr> image_State = ''queued'', image_ImageID = Some ''img-7'', image_Name = Some ''test-image'' \<rparr>"

definition accepted :: IBMPISession where
  "accepted = session_answering None (Some \<lparr> created_Payload = Some queued_image \<rparr>) None"

definition answered_ok :: IBMPISession where
  "answered_ok = session_answering (Some \<lparr> ok_Payload = Some queued_image \<rparr>) None None"

definition listing_client :: Client where
  "listing_client = client_answering (Some three_images, None) accepted"

definition failing_client :: Client where
  "failing_client = client_answering (None, Some (Error ''timeout'')) accepted"

text \<open>
  An account with a PowerVS workspace and three COS instances: the client of
  \<open>cos-down\<close> cannot be created, \<open>cos-logs\<close> has the bucket \<open>logs\<close>, and
  \<open>cos-images\<close> has the buckets \<open>backup\<close> and \<open>images\<close>, the latter with the object
  \<open>rhel-83.ova.gz\<close>.
\<close>

definition workspace :: ResourceInstance where
  "workspace = \<lparr> ri_Crn = Some ''crn:v1:public:power-iaas:us-south'', ri_Name = Some ''upstream-core'',
                 ri_ID = Some ''id-pvs'' \<rparr>"

definition cos_down :: ResourceInstance where
  "cos_down = \<lparr> ri_Crn = Some ''crn:v1:public:cloud-object-storage:global:1'', ri_Name = Some ''cos-down'',
                ri_ID = Some ''id-down'' \<rparr>"

definition cos_logs :: ResourceInstance where
  "cos_logs = \<lparr> ri_Crn = Some ''crn:v1:public:cloud-object-storage:global:2'', ri_Name = Some ''cos-logs'',
                ri_ID = Some ''id-logs'' \<rparr>"

definition cos_images :: ResourceInstance where
  "cos_images = \<lparr> ri_Crn = Some ''crn:v1:public:cloud-object-storage:global:3'', ri_Name = Some ''cos-images'',
                  ri_ID = Some ''id-images'' \<rparr>"

definition s3_with :: "string list \<Rightarrow> (string \<times> string) list \<Rightarrow> S3Client" where
  "s3_with buckets objects =
     \<lparr> s3_ListBuckets = (Some \<lparr> lbo_Buckets = map (\<lambda>name. Some \<lparr> bucket_Name = Some name \<rparr>) buckets \<rparr>, None),
       s3_CheckIfObjectExists = (\<lambda>bucket object. (bucket, object) \<in> set objects) \<rparr>"

definition s3_logs :: S3Client where
  "s3_logs = s3_with [''logs''] []"

definition s3_images :: S3Client where
  "s3_images = s3_with [''backup'', ''images''] [(''images'', ''rhel-83.ova.gz'')]"

definition hmac_credential :: "string \<Rightarrow> string \<Rightarrow> Credentials" where
  "hmac_credential accessKey secretKey =
     \<lparr> cred_GetProperty = (\<lambda>key. if key = ''cos_hmac_keys''
                                  then Some (JObject [(''access_key_id'', JString accessKey),
                                                      (''secret_access_key'', JString secretKey)])
                                  else None) \<rparr>"

text \<open>
  The resource controller of the account, with the resource keys that exist under any
  name but \<open>forbidden\<close>, whose listing is refused; a key it creates has the HMAC keys
  \<open>AK-new\<close> and \<open>SK-new\<close>.
\<close>

definition controller :: "ResourceKey list \<Rightarrow> ResourceControllerV2" where
  "controller existing =
     \<lparr> rc_ListResourceInstances =
         (\<lambda>type. (Some \<lparr> ril_Resources = [workspace, cos_down, cos_logs, cos_images] \<rparr>, None)),
       rc_ListResourceKeys =
         (\<lambda>name. if name = ''forbidden'' then (None, Some (Error ''403 Forbidden''))
                  else (Some \<lparr> rkl_Resources = existing \<rparr>, None)),
       rc_CreateResourceKey =
         (\<lambda>name source parameters.
            (Some \<lparr> key_Credentials = Some (hmac_credential ''AK-new'' ''SK-new'') \<rparr>, None)) \<rparr>"

text \<open>Lower case for ASCII letters, which is what \<open>strings.ToLower\<close> does on ASCII strings.\<close>

definition ascii_lower :: "string \<Rightarrow> string" where
  "ascii_lower s =
     map (\<lambda>c. case map_of (zip ''ABCDEFGHIJKLMNOPQRSTUVWXYZ'' ''abcdefghijklmnopqrstuvwxyz'') c of
                 None \<Rightarrow> c
               | Some l \<Rightarrow> l) s"

text \<open>
  The platform of the account. The two JSON functions stand in for \<open>encoding/json\<close> on
  an object of two strings: the text is the two strings with a space between them.
\<close>

definition cloud :: "ResourceKey list \<Rightarrow> platform" where
  "cloud existing =
     \<lparr> client_NewClient =
         (\<lambda>apikey. if apikey = '''' then (None, Some (Error ''api key is required'')) else (Some 1, None)),
       core_NewIamAuthenticator = (\<lambda>apikey. (Some 2, None)),
       client_NewResourceControllerV2 = (\<lambda>auth. (Some (controller existing), None)),
       client_NewS3Client =
         (\<lambda>bxCli name region.
            if name = ''cos-logs'' then (Some s3_logs, None)
            else if name = ''cos-images'' then (Some s3_images, None)
            else (None, Some (Error ''no endpoint''))),
       client_NewPVMClient =
         (\<lambda>bxCli id' name. (Some \<lparr> pvm_ImgClient = Some listing_client, pvm_InstanceID = ''pvs-1'' \<rparr>, None)),
       strings_ToLower = ascii_lower,
       json_Marshal =
         (\<lambda>v. case v of
                 Some (JObject [(k1, JString a), (k2, JString b)]) \<Rightarrow> (a @ '' '' @ b, None)
               | _ \<Rightarrow> (''null'', None)),
       json_Unmarshal =
         (\<lambda>text. (\<lparr> AccessKeyID = takeWhile (\<lambda>c. c \<noteq> CHR '' '') text,
                      SecretKeyID = drop 1 (dropWhile (\<lambda>c. c \<noteq> CHR '' '') text) \<rparr>, None)) \<rparr>"

definition flags :: ImageCMDOptions where
  "flags =
     \<lparr> InstanceName = ''upstream-core'', InstanceID = '''', BucketName = ''images'', Region = ''us-south'',
       ImageFilename = ''rhel-83.ova.gz'', AccessKey = '''', SecretKey = '''', ImageName = ''test-image'',
       OsType = ''RedHat'', StorageType = ''Tier1'', ServiceCredName = ''pvsadm-service-cred'' \<rparr>"

text \<open>The calls of the scan for the bucket \<open>images\<close> in that account.\<close>

definition scan_of_images :: "event list" where
  "scan_of_images =
     [(CallNewS3Client 1 ''cos-down'' ''us-south'', True),
      (CallNewS3Client 2 ''cos-logs'' ''us-south'', False), (CallListBuckets 2, False),
      (CallNewS3Client 3 ''cos-images'' ''us-south'', False), (CallListBuckets 3, False)]"

text \<open>
  The same account with another list of resource instances, and an instance without a
  CRN, which the scan cannot read.
\<close>

definition no_crn :: ResourceInstance where
  "no_crn = \<lparr> ri_Crn = None, ri_Name = Some ''unnamed'', ri_ID = None \<rparr>"

definition controller_listing :: "ResourceInstance list \<Rightarrow> ResourceControllerV2" where
  "controller_listing resources =
     (controller []) \<lparr> rc_ListResourceInstances := (\<lambda>type. (Some \<lparr> ril_Resources = resources \<rparr>, None)) \<rparr>"

definition cloud_listing :: "ResourceInstance list \<Rightarrow> platform" where
  "cloud_listing resources =
     (cloud []) \<lparr> client_NewResourceControllerV2 := (\<lambda>auth. (Some (controller_listing resources), None)) \<rparr>"

section \<open>The purge filter\<close>

lemma candidate_selected:
  assumes "expr = '''' \<or> regexp_Compile lib expr = Inr r" and "well_formed expr x"
  shows "candidate lib before since expr x = Return (selected lib r before since expr x)"
  using assms
  by (auto simp: candidate_def purgeable_date_def well_formed_def selected_def split: option.splits)

lemma candidates_loop_filter:
  assumes "expr = '''' \<or> regexp_Compile lib expr = Inr r"
    and "list_all (well_formed expr) xs"
  shows "candidates_loop lib before since expr xs acc =
     Return (acc @ filter (selected lib r before since expr) xs, None)"
  using assms(2)
proof (induction xs arbitrary: acc)
  case Nil
  show ?case by simp
next
  case (Cons x xs)
  have c: "candidate lib before since expr x = Return (selected lib r before since expr x)"
    using Cons.prems assms(1) by (simp add: candidate_selected)
  have t: "list_all (well_formed expr) xs"
    using Cons.prems by simp
  show ?case
    by (simp add: c Cons.IH[OF t])
qed

lemma candidate_returns:
  assumes "expr = '''' \<or> regexp_Compile lib expr = Inr r"
    and "candidate lib before since expr x = Return b"
  shows "b = selected lib r before since expr x"
  using assms
  by (auto simp: candidate_def purgeable_date_def selected_def split: option.splits if_splits)

lemma candidates_loop_returns:
  assumes "expr = '''' \<or> regexp_Compile lib expr = Inr r"
    and "candidates_loop lib before since expr xs acc = Return (cands, err)"
  shows "cands = acc @ filter (selected lib r before since expr) xs \<and> err = None"
  using assms(2)
proof (induction xs arbitrary: acc)
  case Nil
  then show ?case by simp
next
  case (Cons x xs)
  from Cons.prems obtain b where c: "candidate lib before since expr x = Return b"
    by (auto split: outcome.splits)
  note s = candidate_returns[OF assms(1) c]
  show ?case
  proof (cases b)
    case True
    then have "candidates_loop lib before since expr xs (acc @ [x]) = Return (cands, err)"
      using Cons.prems c by simp
    from Cons.IH[OF this] show ?thesis using s True by simp
  next
    case False
    then have "candidates_loop lib before since expr xs acc = Return (cands, err)"
      using Cons.prems c by simp
    from Cons.IH[OF this] show ?thesis using s False by simp
  qed
qed

lemma candidate_invalid:
  assumes "expr \<noteq> ''''" and "regexp_Compile lib expr = Inl e"
  shows "candidate lib before since expr x =
     Panic (case x of
              None \<Rightarrow> ''image''
            | Some img \<Rightarrow> (case ref_Name img of None \<Rightarrow> ''image.Name'' | Some n \<Rightarrow> ''r''))"
  using assms by (simp add: candidate_def split: option.splits)

text \<open>
  C1, as amended. When \<open>GetAll\<close> returns a list and the pattern is empty or compiles,
  \<open>GetAllPurgeable\<close>, whenever it returns, returns with a nil error and in the order of
  the list exactly the images whose name matches the pattern (when one is given) and whose
  creation date \<open>IsPurgeable\<close> accepts; and it does return when every image of the list
  is well formed.
\<close>

theorem GetAllPurgeable_filter:
  assumes "sdk_GetAll (client c) (instanceID c) = (Some imgs, None)"
    and "expr = '''' \<or> regexp_Compile lib expr = Inr r"
  shows "(\<forall>cands err. snd (GetAllPurgeable lib c before since expr) = Return (cands, err) \<longrightarrow>
            cands = filter (selected lib r before since expr) (Images imgs) \<and> err = None)
       \<and> (list_all (well_formed expr) (Images imgs) \<longrightarrow>
            snd (GetAllPurgeable lib c before since expr) =
              Return (filter (selected lib r before since expr) (Images imgs), None))"
proof -
  have g: "snd (GetAllPurgeable lib c before since expr) =
             candidates_loop lib before since expr (Images imgs) []"
    using assms(1) by (simp add: GetAllPurgeable_def GetAll_def)
  have a: "\<forall>cands err. snd (GetAllPurgeable lib c before since expr) = Return (cands, err) \<longrightarrow>
            cands = filter (selected lib r before since expr) (Images imgs) \<and> err = None"
    unfolding g using candidates_loop_returns[OF assms(2), of before since "Images imgs" "[]"] by simp
  have b: "list_all (well_formed expr) (Images imgs) \<longrightarrow>
            snd (GetAllPurgeable lib c before since expr) =
              Return (filter (selected lib r before since expr) (Images imgs), None)"
    unfolding g using candidates_loop_filter[OF assms(2), of "Images imgs" before since "[]"] by simp
  show ?thesis
    using a b by blast
qed

theorem GetAllPurgeable_filter_witness:
  "snd (GetAllPurgeable literal_library listing_client 50 0 ''rhel'') = Return ([Some rhel83], None)"
proof -
  have g: "sdk_GetAll (client listing_client) (instanceID listing_client) = (Some three_images, None)"
    by (simp add: listing_client_def client_answering_def)
  have r: "''rhel'' = '''' \<or> regexp_Compile literal_library ''rhel'' = Inr (Regexp ''rhel'')"
    by (simp add: literal_library_def)
  have w: "list_all (well_formed ''rhel'') (Images three_images)"
    by (simp add: well_formed_def three_images_def rhel83_def centos8_def rhel84_def)
  have f: "filter (selected literal_library (Regexp ''rhel'') 50 0 ''rhel'') (Images three_images)
             = [Some rhel83]"
    by code_simp
  from GetAllPurgeable_filter[OF g r, of 50 0] w
  have "snd (GetAllPurgeable literal_library listing_client 50 0 ''rhel'') =
          Return (filter (selected literal_library (Regexp ''rhel'') 50 0 ''rhel'') (Images three_images), None)"
    by blast
  then show ?thesis
    unfolding f .
qed

text \<open>
  C1, as stated, fails: with the pattern \<open>(\<close>, which does not compile, and a list of
  three images, \<open>GetAllPurgeable\<close> panics and returns no list.
\<close>

theorem GetAllPurgeable_filter_counterexample:
  "snd (GetAllPurgeable literal_library listing_client 50 0 ''('') = Panic ''r''"
  by code_simp

section \<open>The image import request\<close>

text \<open>
  C2, as amended. \<open>ImportImage\<close> returns a non-nil error exactly when the image post
  returns an error or a non-nil first response; an error of the post is returned as it
  is, a first response makes \<open>ImportImage\<close> fail with an error of its own, and when the
  post returns neither but a second response with a payload (whose \<open>ImageID\<close> is set if
  its state is \<open>queued\<close>), \<open>ImportImage\<close> returns that payload and a nil error.
\<close>

theorem ImportImage_error_iff:
  assumes "session c = Some sess"
    and "sdk_ImagesPost sess iid
           (request_body imageName s3Filename region accessKey secretKey bucketName osType storageType)
         = (resp1, resp2, err)"
  shows "((\<exists>v e. snd (ImportImage c iid imageName s3Filename region accessKey secretKey bucketName
                        osType storageType) = Return (v, Some e))
            \<longleftrightarrow> (err \<noteq> None \<or> resp1 \<noteq> None))
       \<and> (\<forall>e. err = Some e \<longrightarrow>
              snd (ImportImage c iid imageName s3Filename region accessKey secretKey bucketName
                     osType storageType) = Return (None, Some e))
       \<and> (err = None \<and> resp1 \<noteq> None \<longrightarrow>
              snd (ImportImage c iid imageName s3Filename region accessKey secretKey bucketName
                     osType storageType) = Return (None, Some (Error ''Failed to initiate the import job'')))
       \<and> (\<forall>created payload.
              err = None \<and> resp1 = None \<and> resp2 = Some created \<and> created_Payload created = Some payload
              \<and> (image_State payload = ''queued'' \<longrightarrow> image_ImageID payload \<noteq> None) \<longrightarrow>
              snd (ImportImage c iid imageName s3Filename region accessKey secretKey bucketName
                     osType storageType) = Return (Some payload, None))"
  using assms
  by (auto simp: ImportImage_def Let_def split: option.splits)

theorem ImportImage_error_iff_witness:
  "snd (ImportImage listing_client ''pvs-1'' ''test-image'' ''rhel-83.ova.gz'' ''us-south'' ''AK'' ''SK''
          ''images'' ''redhat'' ''tier3'') = Return (Some queued_image, None)"
proof -
  have s: "session listing_client = Some accepted"
    by (simp add: listing_client_def client_answering_def)
  have a: "sdk_ImagesPost accepted ''pvs-1''
             (request_body ''test-image'' ''rhel-83.ova.gz'' ''us-south'' ''AK'' ''SK'' ''images''
                ''redhat'' ''tier3'')
           = (None, Some \<lparr> created_Payload = Some queued_image \<rparr>, None)"
    by (simp add: accepted_def session_answering_def)
  have q: "image_ImageID queued_image \<noteq> None"
    by (simp add: queued_image_def)
  show ?thesis
    using ImportImage_error_iff[OF s a] q by simp
qed

text \<open>
  C2, as stated, fails: the post returns no error but a first response, and
  \<open>ImportImage\<close> returns an error.
\<close>

theorem ImportImage_error_iff_counterexample:
  "snd (snd (sdk_ImagesPost answered_ok ''pvs-1''
               (request_body ''test-image'' ''rhel-83.ova.gz'' ''us-south'' ''AK'' ''SK'' ''images''
                  ''redhat'' ''tier3''))) = None
   \<and> snd (ImportImage (client_answering (Some three_images, None) answered_ok) ''pvs-1'' ''test-image''
            ''rhel-83.ova.gz'' ''us-south'' ''AK'' ''SK'' ''images'' ''redhat'' ''tier3'')
       = Return (None, Some (Error ''Failed to initiate the import job''))"
  by (simp add: ImportImage_def Let_def answered_ok_def session_answering_def client_answering_def)

text \<open>
  C6. When \<open>GetAll\<close> returns an error, \<open>GetAllPurgeable\<close> returns a nil list (the empty
  list) and an error whose text is \<open>failed to get the list of instances: \<close> followed by
  the text of that error.
\<close>

theorem GetAllPurgeable_GetAll_error:
  assumes "sdk_GetAll (client c) (instanceID c) = (images, Some e)"
  shows "snd (GetAllPurgeable lib c before since expr) =
     Return ([], Some (Error (''failed to get the list of instances: '' @ Error_text e)))"
  using assms by (simp add: GetAllPurgeable_def GetAll_def)

theorem GetAllPurgeable_GetAll_error_witness:
  "snd (GetAllPurgeable literal_library failing_client 50 0 ''rhel'') =
     Return ([], Some (Error ''failed to get the list of instances: timeout''))"
proof -
  have g: "sdk_GetAll (client failing_client) (instanceID failing_client) = (None, Some (Error ''timeout''))"
    by (simp add: failing_client_def client_answering_def)
  show ?thesis
    using GetAllPurgeable_GetAll_error[OF g, of literal_library 50 0 "''rhel''"] by simp
qed

text \<open>
  C8. When the pattern is not empty and does not compile, and \<open>GetAll\<close> returns a list,
  \<open>GetAllPurgeable\<close> never returns an error: it returns the empty list and a nil error
  when the list is empty, and panics when it is not; when the first image has a name,
  the panic is the call of \<open>MatchString\<close> on the nil \<open>*Regexp\<close>.
\<close>

theorem GetAllPurgeable_invalid_pattern:
  assumes "expr \<noteq> ''''" and "regexp_Compile lib expr = Inl e"
    and "sdk_GetAll (client c) (instanceID c) = (Some imgs, None)"
  shows "(\<forall>cands err. snd (GetAllPurgeable lib c before since expr) \<noteq> Return (cands, Some err))
     \<and> (Images imgs = [] \<longrightarrow> snd (GetAllPurgeable lib c before since expr) = Return ([], None))
     \<and> (Images imgs \<noteq> [] \<longrightarrow> (\<exists>p. snd (GetAllPurgeable lib c before since expr) = Panic p))
     \<and> (\<forall>x n rest. Images imgs = Some x # rest \<and> ref_Name x = Some n
           \<longrightarrow> snd (GetAllPurgeable lib c before since expr) = Panic ''r'')"
proof (cases "Images imgs")
  case Nil
  then show ?thesis
    using assms(3) by (simp add: GetAllPurgeable_def GetAll_def)
next
  case (Cons x xs)
  then show ?thesis
    using assms(3) candidate_invalid[OF assms(1,2), of before since x]
    by (auto simp: GetAllPurgeable_def GetAll_def)
qed

theorem GetAllPurgeable_invalid_pattern_witness:
  "snd (GetAllPurgeable literal_library listing_client 0 0 ''('') = Panic ''r''
   \<and> snd (GetAllPurgeable literal_library (client_answering (Some \<lparr> Images = [] \<rparr>, None) accepted) 0 0 ''('')
       = Return ([], None)"
proof -
  have n: "''('' \<noteq> ''''"
    by simp
  have r: "regexp_Compile literal_library ''('' = Inl (Error ''error parsing regexp'')"
    by (simp add: literal_library_def)
  have g: "sdk_GetAll (client listing_client) (instanceID listing_client) = (Some three_images, None)"
    by (simp add: listing_client_def client_answering_def)
  have g': "sdk_GetAll (client (client_answering (Some \<lparr> Images = [] \<rparr>, None) accepted))
              (instanceID (client_answering (Some \<lparr> Images = [] \<rparr>, None) accepted))
            = (Some \<lparr> Images = [] \<rparr>, None)"
    by (simp add: client_answering_def)
  have i: "Images three_images = Some rhel83 # [Some centos8, Some rhel84] \<and> ref_Name rhel83 = Some ''rhel-83''"
    by (simp add: three_images_def rhel83_def)
  show ?thesis
    using GetAllPurgeable_invalid_pattern[OF n r g, of 0 0]
          GetAllPurgeable_invalid_pattern[OF n r g', of 0 0] i
    by simp
qed

text \<open>
  C10. \<open>ImportImage\<close> makes at most one call, the image post for the given cloud
  instance (none when the session is nil); the body of the request has \<open>Source\<close>
  \<open>url\<close> and every other field equal to the argument it is built from.
\<close>

theorem ImportImage_request_body:
  "map fst (fst (ImportImage c iid imageName s3Filename region accessKey secretKey bucketName osType
                   storageType)) =
     (case session c of
        None \<Rightarrow> []
      | Some sess \<Rightarrow>
          [CallImagesPost iid
             \<lparr> body_ImageName = imageName, body_ImageFilename = s3Filename, body_Region = region,
               body_AccessKey = accessKey, body_SecretKey = secretKey, body_BucketName = bucketName,
               body_OsType = osType, body_DiskType = storageType, body_Source = Some ''url'' \<rparr>])"
  by (simp add: ImportImage_def request_body_def Let_def split: option.splits prod.splits)

section \<open>Lemmas about the import command\<close>

subsection \<open>Only the flag check exits\<close>

lemma bucket_listed_no_exit [simp]: "bucket_listed b xs \<noteq> Exit n"
  by (induction xs) (auto split: option.splits)

lemma cos_probe_no_exit [simp]: "cos_probe p bxCli opt i s r \<noteq> (evs, Exit n)"
  by (auto simp: cos_probe_def logged_def split: option.splits prod.splits outcome.splits)

lemma cosOfBucket_no_exit [simp]: "cosOfBucket p bxCli opt i s rs \<noteq> (evs, Exit n)"
proof (induction rs arbitrary: i s evs)
  case Nil
  show ?case by simp
next
  case (Cons r rs)
  show ?case
    using Cons.IH
    by (auto split: prod.splits outcome.splits bool.splits)
qed

lemma ImportImage_no_exit [simp]: "ImportImage c iid a b d e f g h j \<noteq> (evs, Exit n)"
  by (auto simp: ImportImage_def Let_def split: option.splits prod.splits)

lemma import_image_no_exit [simp]: "import_image p opt bxCli ak sk \<noteq> (evs, Exit n)"
  by (auto simp: import_image_def logged_def split: option.splits prod.splits outcome.splits)

lemma hmac_of_credential_no_exit [simp]: "hmac_of_credential p cred \<noteq> Exit n"
  by (auto simp: hmac_of_credential_def split: option.splits prod.splits)

lemma service_credential_no_exit [simp]: "service_credential p opt rc cid \<noteq> (evs, Exit n)"
  by (auto simp: service_credential_def logged_def split: option.splits prod.splits list.splits)

lemma import_from_no_exit [simp]: "import_from p opt bxCli rc found s3 \<noteq> (evs, Exit n)"
  by (auto simp: import_from_def logged_def Let_def split: option.splits prod.splits outcome.splits sum.splits)

subsection \<open>Reaching the scan\<close>

lemma RunE_scans:
  assumes "scans p opt apikey bxCli rc resources"
    and "cosOfBucket p bxCli opt 0 None resources = (evs, out)"
  shows "RunE p opt apikey =
     (case out of
        Panic s \<Rightarrow> (setup_events apikey @ evs, Panic s)
      | Exit n \<Rightarrow> (setup_events apikey @ evs, Exit n)
      | Return (found, s3client) \<Rightarrow>
          (setup_events apikey @ evs @ fst (import_from p opt bxCli rc found s3client),
           snd (import_from p opt bxCli rc found s3client)))"
  using assms
  by (auto simp: scans_def RunE_def utils_Contains_def logged_def setup_events_def errored_def
           split: outcome.splits prod.splits)

subsection \<open>The calls each part of the command makes\<close>

lemma cos_probe_events:
  assumes "cos_probe p bxCli opt i s r = (evs, out)" and "ev \<in> set evs"
  shows "scan_position (fst ev) = Some i"
  using assms
  by (auto simp: cos_probe_def logged_def split: option.splits prod.splits outcome.splits if_splits)

lemma cosOfBucket_events:
  assumes "cosOfBucket p bxCli opt i s rs = (evs, out)" and "ev \<in> set evs"
  shows "\<exists>j\<ge>i. scan_position (fst ev) = Some j"
  using assms
proof (induction rs arbitrary: i s evs out)
  case Nil
  then show ?case by simp
next
  case (Cons r rs)
  obtain evs0 out0 where pr: "cos_probe p bxCli opt i s r = (evs0, out0)"
    by (cases "cos_probe p bxCli opt i s r")
  show ?case
  proof (cases "ev \<in> set evs0")
    case True
    then show ?thesis using cos_probe_events[OF pr] by auto
  next
    case False
    then obtain s' evs' out' where "cosOfBucket p bxCli opt (Suc i) s' rs = (evs', out')" "ev \<in> set evs'"
      using Cons.prems pr by (auto split: outcome.splits prod.splits bool.splits)
    from Cons.IH[OF this] show ?thesis by (meson Suc_leD)
  qed
qed

lemma ImportImage_events:
  assumes "ImportImage c iid a b d e f g h j = (evs, out)" and "ev \<in> set evs"
  shows "fst ev = CallImagesPost iid (request_body a b d e f g h j)"
  using assms by (auto simp: ImportImage_def Let_def split: option.splits prod.splits)

lemma import_image_events:
  assumes "import_image p opt bxCli ak sk = (evs, out)" and "ev \<in> set evs"
  shows "fst ev = CallNewPVMClient (InstanceID opt) (InstanceName opt)
       \<or> (\<exists>iid. fst ev = CallImagesPost iid
              (request_body (ImageName opt) (ImageFilename opt) (Region opt) ak sk (BucketName opt)
                 (strings_ToLower p (OsType opt)) (strings_ToLower p (StorageType opt))))"
  using assms
  by (auto simp: import_image_def logged_def split: option.splits prod.splits outcome.splits)
     (metis ImportImage_events)+

lemma service_credential_events:
  assumes "service_credential p opt rc cid = (evs, out)" and "ev \<in> set evs"
  shows "fst ev = CallListResourceKeys (ServiceCredName opt)
       \<or> fst ev = CallCreateResourceKey (ServiceCredName opt) cid [(''HMAC'', True)]"
  using assms
  by (auto simp: service_credential_def logged_def split: option.splits prod.splits list.splits if_splits)

lemma import_from_events:
  assumes "import_from p opt bxCli rc found s3 = (evs, out)" and "ev \<in> set evs"
  shows "fst ev = CallCheckIfObjectExists (BucketName opt) (ImageFilename opt)
       \<or> (\<exists>cid evs' out'. service_credential p opt rc cid = (evs', out') \<and> ev \<in> set evs')
       \<or> (\<exists>ak sk evs' out'. import_image p opt bxCli ak sk = (evs', out') \<and> ev \<in> set evs')"
  using assms
  by (auto simp: import_from_def logged_def Let_def
           split: option.splits prod.splits outcome.splits sum.splits if_splits)
     blast+

lemma RunE_events:
  assumes "RunE p opt apikey = (evs, out)" and "ev \<in> set evs"
  shows "fst ev \<in> {CallNewClient apikey, CallNewIamAuthenticator apikey, CallNewResourceControllerV2,
                    CallListResourceInstances ''service_instance''}
       \<or> (\<exists>bxCli rs evs' out'. cosOfBucket p bxCli opt 0 None rs = (evs', out') \<and> ev \<in> set evs')
       \<or> (\<exists>bxCli rc found s3 evs' out'. import_from p opt bxCli rc found s3 = (evs', out') \<and> ev \<in> set evs')"
  using assms
  by (auto simp: RunE_def logged_def split: option.splits prod.splits outcome.splits if_splits)
     blast+

lemma RunE_ImagesPost_body:
  assumes "(CallImagesPost iid body, failed) \<in> set (fst (RunE p opt apikey))"
  shows "\<exists>ak sk. body = request_body (ImageName opt) (ImageFilename opt) (Region opt) ak sk (BucketName opt)
                 (strings_ToLower p (OsType opt)) (strings_ToLower p (StorageType opt))"
proof -
  obtain evs out where r: "RunE p opt apikey = (evs, out)"
    by (cases "RunE p opt apikey")
  with assms have m: "(CallImagesPost iid body, failed) \<in> set evs"
    by simp
  from RunE_events[OF r m]
  obtain bxCli rc found s3 evs1 out1
    where i: "import_from p opt bxCli rc found s3 = (evs1, out1)"
      and m1: "(CallImagesPost iid body, failed) \<in> set evs1"
    by (auto dest: cosOfBucket_events)
  from import_from_events[OF i m1]
  obtain ak sk evs2 out2
    where j: "import_image p opt bxCli ak sk = (evs2, out2)"
      and m2: "(CallImagesPost iid body, failed) \<in> set evs2"
    by (auto dest: service_credential_events)
  from import_image_events[OF j m2] show ?thesis by auto
qed

subsection \<open>The flag check\<close>

lemma RunE_exit:
  "snd (RunE p opt apikey) = Exit n \<longleftrightarrow>
     n = 1 \<and> ((OsType opt \<noteq> '''' \<and> strings_ToLower p (OsType opt) \<notin> set validOsType)
              \<or> strings_ToLower p (StorageType opt) \<notin> set validStorageType)"
  by (auto simp: RunE_def logged_def utils_Contains_def
           split: option.splits prod.splits outcome.splits if_splits)

lemma RunE_first_call:
  "RunE p opt apikey = ([], Exit 1)
   \<or> (\<exists>failed rest. fst (RunE p opt apikey) = (CallNewClient apikey, failed) # rest
         \<and> snd (RunE p opt apikey) \<noteq> Exit 1)"
  by (auto simp: RunE_def logged_def split: option.splits prod.splits outcome.splits if_splits)

subsection \<open>The scan returns the first owner\<close>

lemma bucket_listed_sound:
  assumes "list_all has_name bs"
  shows "bucket_listed name bs = Return (list_ex (bucket_named name) bs)"
  using assms by (induction bs) (auto simp: bucket_named_def has_name_def split: option.splits)

lemma cos_probe_sound:
  assumes "sound_resource p bxCli opt r"
  shows "\<exists>evs s'. cos_probe p bxCli opt i s r = (evs, Return (owns_bucket p bxCli opt r, s'))"
  using assms
  by (auto simp: sound_resource_def owns_bucket_def cos_probe_def logged_def bucket_listed_sound
           split: option.splits prod.splits)

lemma cosOfBucket_find:
  assumes "list_all (sound_resource p bxCli opt) rs"
  shows "\<exists>evs s'. cosOfBucket p bxCli opt i s rs = (evs, Return (find (owns_bucket p bxCli opt) rs, s'))"
  using assms
proof (induction rs arbitrary: i s)
  case Nil
  show ?case by simp
next
  case (Cons r rs)
  from Cons.prems have "sound_resource p bxCli opt r" and t: "list_all (sound_resource p bxCli opt) rs"
    by simp_all
  from cos_probe_sound[OF this(1), of i s]
  obtain evs s' where pr: "cos_probe p bxCli opt i s r = (evs, Return (owns_bucket p bxCli opt r, s'))"
    by blast
  show ?case
  proof (cases "owns_bucket p bxCli opt r")
    case True
    then show ?thesis using pr by simp
  next
    case False
    from Cons.IH[OF t, of "Suc i" s']
    obtain evs' s'' where "cosOfBucket p bxCli opt (Suc i) s' rs
        = (evs', Return (find (owns_bucket p bxCli opt) rs, s''))"
      by blast
    then show ?thesis using pr False by simp
  qed
qed

lemma bucket_listed_returns:
  assumes "bucket_listed name bs = Return b"
  shows "b = list_ex (bucket_named name) bs"
  using assms
  by (induction bs) (auto simp: bucket_named_def split: option.splits if_splits)

lemma cos_probe_returns:
  assumes "cos_probe p bxCli opt i s r = (evs, Return (b, s'))"
  shows "b = owns_bucket p bxCli opt r"
  using assms
  by (auto simp: cos_probe_def owns_bucket_def logged_def
           split: option.splits prod.splits outcome.splits if_splits
           dest: bucket_listed_returns)

lemma cosOfBucket_returns:
  assumes "cosOfBucket p bxCli opt i s rs = (evs, Return (found, s'))"
  shows "found = find (owns_bucket p bxCli opt) rs"
  using assms
proof (induction rs arbitrary: i s evs)
  case Nil
  then show ?case by simp
next
  case (Cons r rs)
  obtain evs0 out0 where pr: "cos_probe p bxCli opt i s r = (evs0, out0)"
    by (cases "cos_probe p bxCli opt i s r")
  from Cons.prems pr obtain b s0 where o: "out0 = Return (b, s0)"
    by (cases out0) auto
  note ob = cos_probe_returns[OF pr[unfolded o]]
  show ?case
  proof (cases b)
    case True
    then show ?thesis using Cons.prems pr o ob by simp
  next
    case False
    obtain evs1 out1 where rec: "cosOfBucket p bxCli opt (Suc i) s0 rs = (evs1, out1)"
      by (cases "cosOfBucket p bxCli opt (Suc i) s0 rs")
    then have "out1 = Return (found, s')"
      using Cons.prems pr o False by simp
    from Cons.IH[OF rec[unfolded this]] show ?thesis using ob False by simp
  qed
qed

lemma import_from_not_found:
  "import_from p opt bxCli rc None s3 =
     ([], Return (Some (Error (''failed to find the COS instance for the bucket mentioned: '' @ BucketName opt))))"
  by (simp add: import_from_def)

subsection \<open>Traces without a retry\<close>

lemma no_retry_Cons:
  "no_retry (ev # evs) \<longleftrightarrow> (evs \<noteq> [] \<and> snd ev \<longrightarrow> skipped_to (fst ev) (fst (hd evs))) \<and> no_retry evs"
  by (cases ev; cases evs) auto

lemma no_retry_append:
  assumes "no_retry xs" and "no_retry ys"
    and "xs \<noteq> [] \<and> ys \<noteq> [] \<and> snd (last xs) \<longrightarrow> skipped_to (fst (last xs)) (fst (hd ys))"
  shows "no_retry (xs @ ys)"
  using assms
proof (induction xs)
  case Nil
  then show ?case by simp
next
  case (Cons x xs)
  show ?case
  proof (cases "xs = []")
    case True
    then show ?thesis using Cons.prems by (simp add: no_retry_Cons)
  next
    case False
    then show ?thesis using Cons by (simp add: no_retry_Cons)
  qed
qed

lemma no_retry_quiet:
  assumes "\<forall>ev \<in> set (butlast evs). \<not> snd ev"
  shows "no_retry evs"
  using assms
proof (induction evs)
  case Nil
  show ?case by simp
next
  case (Cons x xs)
  then show ?case by (cases "xs = []") (auto simp: no_retry_Cons)
qed

subsection \<open>The trace of the scan\<close>

lemma cos_probe_shape:
  assumes "cos_probe p bxCli opt i s r = (evs, out)"
  shows "evs = [] \<and> (\<forall>s'. out \<noteq> Return (True, s'))
       \<or> (\<exists>n f. evs = [(CallNewS3Client i n (Region opt), f)] \<and> (\<forall>s'. out \<noteq> Return (True, s')))
       \<or> (\<exists>n f. evs = [(CallNewS3Client i n (Region opt), False), (CallListBuckets i, f)]
              \<and> (f \<longrightarrow> (\<forall>s'. out \<noteq> Return (True, s'))))"
  using assms
  by (auto simp: cos_probe_def logged_def errored_def
           split: option.splits prod.splits outcome.splits if_splits)

lemma cosOfBucket_trace:
  assumes "cosOfBucket p bxCli opt i s rs = (evs, out)"
  shows "no_retry evs \<and> distinct (map fst evs)
       \<and> (evs \<noteq> [] \<longrightarrow> (\<exists>j n f. i \<le> j \<and> hd evs = (CallNewS3Client j n (Region opt), f)))
       \<and> (\<forall>cos s'. out = Return (Some cos, s') \<longrightarrow> evs \<noteq> [] \<and> \<not> snd (last evs))"
  using assms
proof (induction rs arbitrary: i s evs out)
  case Nil
  then show ?case by auto
next
  case (Cons r rs)
  obtain evs0 out0 where pr: "cos_probe p bxCli opt i s r = (evs0, out0)"
    by (cases "cos_probe p bxCli opt i s r")
  note shape = cos_probe_shape[OF pr]
  show ?case
  proof (cases "\<exists>s'. out0 = Return (False, s')")
    case False
    then have e: "evs = evs0" and o: "out = (case out0 of Return (b, s') \<Rightarrow> Return (Some r, s') | Exit n \<Rightarrow> Exit n | Panic x \<Rightarrow> Panic x)"
      using Cons.prems pr by (auto split: outcome.splits bool.splits)
    show ?thesis
      using shape False unfolding e o
      by (auto split: outcome.splits bool.splits)
  next
    case True
    then obtain s' where o0: "out0 = Return (False, s')"
      by blast
    obtain evs1 out1 where rec: "cosOfBucket p bxCli opt (Suc i) s' rs = (evs1, out1)"
      by (cases "cosOfBucket p bxCli opt (Suc i) s' rs")
    have e: "evs = evs0 @ evs1" and o: "out = out1"
      using Cons.prems pr o0 rec by auto
    note ih = Cons.IH[OF rec]
    have pos0: "\<forall>ev \<in> set evs0. scan_position (fst ev) = Some i"
      using cos_probe_events[OF pr] by blast
    have pos1: "\<forall>ev \<in> set evs1. \<exists>j\<ge>Suc i. scan_position (fst ev) = Some j"
      using cosOfBucket_events[OF rec] by blast
    have d0: "distinct (map fst evs0)"
      using shape by auto
    have disj: "set (map fst evs0) \<inter> set (map fst evs1) = {}"
      using pos0 pos1 by fastforce
    have n0: "no_retry evs0"
      using shape by auto
    have link: "evs0 \<noteq> [] \<and> evs1 \<noteq> [] \<and> snd (last evs0) \<longrightarrow> skipped_to (fst (last evs0)) (fst (hd evs1))"
    proof (intro impI, elim conjE)
      assume a: "evs0 \<noteq> []" "evs1 \<noteq> []" "snd (last evs0)"
      from ih a(2) obtain j n f where j: "Suc i \<le> j" "hd evs1 = (CallNewS3Client j n (Region opt), f)"
        by blast
      from pos0 a(1) have "scan_position (fst (last evs0)) = Some i"
        by simp
      then show "skipped_to (fst (last evs0)) (fst (hd evs1))"
        using j by simp
    qed
    have hd: "evs \<noteq> [] \<longrightarrow> (\<exists>j n f. i \<le> j \<and> hd evs = (CallNewS3Client j n (Region opt), f))"
    proof (cases "evs0 = []")
      case True
      then show ?thesis using ih e by (auto intro: Suc_leD)
    next
      case False
      then show ?thesis using shape e by auto
    qed
    show ?thesis
      unfolding e o
      using no_retry_append[OF n0 _ link] ih d0 disj hd e
      by auto
  qed
qed

subsection \<open>The trace after the scan\<close>

lemma ImportImage_trace:
  assumes "ImportImage c iid a b d e f g h j = (evs, out)"
  shows "evs = [] \<or> (\<exists>failed. evs = [(CallImagesPost iid (request_body a b d e f g h j), failed)]
                        \<and> (failed \<longrightarrow> (\<exists>err. out = Return (None, Some err))))"
  using assms
  by (auto simp: ImportImage_def Let_def errored_def split: option.splits prod.splits)

lemma import_image_trace:
  assumes "import_image p opt bxCli ak sk = (evs, out)"
  shows "distinct (map fst evs) \<and> (\<forall>ev \<in> set (butlast evs). \<not> snd ev)
       \<and> (evs \<noteq> [] \<and> snd (last evs) \<longrightarrow> (\<exists>e. out = Return (Some e)))
       \<and> (\<forall>ev \<in> set evs. \<exists>x y z. fst ev = CallNewPVMClient x y \<or> fst ev = CallImagesPost x z)"
  using assms
  by (auto simp: import_image_def logged_def errored_def
           split: option.splits prod.splits outcome.splits
           dest!: ImportImage_trace)

lemma service_credential_trace:
  assumes "service_credential p opt rc cid = (evs, out)"
  shows "distinct (map fst evs) \<and> (\<forall>ev \<in> set (butlast evs). \<not> snd ev)
       \<and> (evs \<noteq> [] \<and> snd (last evs) \<longrightarrow> (\<exists>e. out = Return (Inl e)))
       \<and> (\<forall>ev \<in> set evs. \<exists>x y z. fst ev = CallListResourceKeys x \<or> fst ev = CallCreateResourceKey x y z)"
  using assms
  by (auto simp: service_credential_def logged_def errored_def
           split: option.splits prod.splits list.splits if_splits)

lemma quiet_all:
  assumes "\<forall>ev \<in> set (butlast evs). \<not> snd ev" and "evs \<noteq> [] \<longrightarrow> \<not> snd (last evs)"
  shows "\<forall>ev \<in> set evs. \<not> snd ev"
proof (cases evs rule: rev_cases)
  case Nil
  then show ?thesis by simp
next
  case (snoc ys y)
  then show ?thesis using assms by simp
qed

lemma import_from_checked:
  assumes "found = Some cos" "ri_Name cos = Some n" "ri_ID cos = Some cid" "s3 = Some s"
  shows "import_from p opt bxCli rc found s3 =
     (if \<not> s3_CheckIfObjectExists s (BucketName opt) (ImageFilename opt) then
        ([(CallCheckIfObjectExists (BucketName opt) (ImageFilename opt), True)],
         Return (Some (Error (''failed to found the object '' @ ImageFilename opt
                                @ '' in '' @ BucketName opt @ '' bucket''))))
      else
        (case service_credential p opt rc cid of
           (evs, Panic x) \<Rightarrow> ((CallCheckIfObjectExists (BucketName opt) (ImageFilename opt), False) # evs, Panic x)
         | (evs, Exit k) \<Rightarrow> ((CallCheckIfObjectExists (BucketName opt) (ImageFilename opt), False) # evs, Exit k)
         | (evs, Return (Inl e)) \<Rightarrow>
             ((CallCheckIfObjectExists (BucketName opt) (ImageFilename opt), False) # evs, Return (Some e))
         | (evs, Return (Inr (accessKey, secretKey))) \<Rightarrow>
             ((CallCheckIfObjectExists (BucketName opt) (ImageFilename opt), False) # evs
                @ fst (import_image p opt bxCli accessKey secretKey),
              snd (import_image p opt bxCli accessKey secretKey))))"
  using assms
  by (simp add: import_from_def logged_def Let_def split: prod.splits outcome.splits sum.splits)

lemma import_from_unchecked:
  assumes "import_from p opt bxCli rc found s3 = (evs, out)"
    and "\<not> (\<exists>cos n cid s. found = Some cos \<and> ri_Name cos = Some n \<and> ri_ID cos = Some cid \<and> s3 = Some s)"
  shows "evs = []"
proof (cases found)
  case None
  then show ?thesis using assms(1) by (simp add: import_from_def)
next
  case (Some cos)
  show ?thesis
  proof (cases "ri_Name cos")
    case None
    then show ?thesis using assms(1) Some by (simp add: import_from_def)
  next
    case n: (Some n)
    show ?thesis
    proof (cases "ri_ID cos")
      case None
      then show ?thesis using assms(1) Some n by (simp add: import_from_def)
    next
      case c: (Some cid)
      then have "s3 = None" using assms(2) Some n by (cases s3) auto
      then show ?thesis using assms(1) Some n c by (simp add: import_from_def)
    qed
  qed
qed

lemma import_from_trace:
  assumes "import_from p opt bxCli rc found s3 = (evs, out)"
  shows "distinct (map fst evs) \<and> (\<forall>ev \<in> set (butlast evs). \<not> snd ev)
       \<and> (evs \<noteq> [] \<and> snd (last evs) \<longrightarrow> (\<exists>e. out = Return (Some e)))
       \<and> (\<forall>ev \<in> set evs. after_scan (fst ev))"
proof (cases "\<exists>cos n cid s. found = Some cos \<and> ri_Name cos = Some n \<and> ri_ID cos = Some cid \<and> s3 = Some s")
  case False
  from import_from_unchecked[OF assms False] show ?thesis by simp
next
  case True
  then obtain cos n cid s where h: "found = Some cos" "ri_Name cos = Some n" "ri_ID cos = Some cid"
      "s3 = Some s"
    by blast
  note unf = import_from_checked[OF h, of p opt bxCli rc]
  let ?check = "CallCheckIfObjectExists (BucketName opt) (ImageFilename opt)"
  show ?thesis
  proof (cases "s3_CheckIfObjectExists s (BucketName opt) (ImageFilename opt)")
    case False
    then have "evs = [(?check, True)]" and "\<exists>e. out = Return (Some e)"
      using assms unf by auto
    then show ?thesis by simp
  next
    case ex: True
    obtain evc outc where c: "service_credential p opt rc cid = (evc, outc)"
      by (cases "service_credential p opt rc cid")
    note ct = service_credential_trace[OF c]
    have kc: "\<forall>ev \<in> set evc. after_scan (fst ev) \<and> fst ev \<noteq> ?check
                \<and> (\<forall>x y z. fst ev \<noteq> CallNewPVMClient x y \<and> fst ev \<noteq> CallImagesPost x z)"
      using ct by fastforce
    show ?thesis
    proof (cases "\<exists>ak sk. outc = Return (Inr (ak, sk))")
      case False
      then have e: "evs = (?check, False) # evc"
        and o: "out = (case outc of Return (Inl e) \<Rightarrow> Return (Some e) | Exit n \<Rightarrow> Exit n | Panic x \<Rightarrow> Panic x)"
        using assms unf ex c
        by (auto split: outcome.splits sum.splits)
      have d: "distinct (map fst evs)"
        unfolding e using ct kc by auto
      have b: "\<forall>ev \<in> set (butlast evs). \<not> snd ev"
        unfolding e using ct by auto
      have l: "evs \<noteq> [] \<and> snd (last evs) \<longrightarrow> (\<exists>e. out = Return (Some e))"
        unfolding e o using ct by (cases "evc = []") auto
      have k: "\<forall>ev \<in> set evs. after_scan (fst ev)"
        unfolding e using kc by auto
      show ?thesis using d b l k by blast
    next
      case True
      then obtain ak sk where oc: "outc = Return (Inr (ak, sk))"
        by blast
      obtain evi outi where i: "import_image p opt bxCli ak sk = (evi, outi)"
        by (cases "import_image p opt bxCli ak sk")
      note it = import_image_trace[OF i]
      have e: "evs = (?check, False) # evc @ evi" and o: "out = outi"
        using assms unf ex c oc i by auto
      have qc: "\<forall>ev \<in> set evc. \<not> snd ev"
      proof (rule quiet_all)
        show "\<forall>ev \<in> set (butlast evc). \<not> snd ev" using ct by blast
        show "evc \<noteq> [] \<longrightarrow> \<not> snd (last evc)" using ct oc by auto
      qed
      have ki: "\<forall>ev \<in> set evi. after_scan (fst ev) \<and> fst ev \<noteq> ?check"
        using it by fastforce
      have disj: "set (map fst evc) \<inter> set (map fst evi) = {}"
        using kc it by fastforce
      have d: "distinct (map fst evs)"
        unfolding e using ct it kc ki disj by auto
      have b: "\<forall>ev \<in> set (butlast evs). \<not> snd ev"
        unfolding e using qc it by (auto simp: butlast_append dest: in_set_butlastD)
      have l: "evs \<noteq> [] \<and> snd (last evs) \<longrightarrow> (\<exists>e. out = Return (Some e))"
        unfolding e o using qc it by (cases "evi = []") auto
      have k: "\<forall>ev \<in> set evs. after_scan (fst ev)"
        unfolding e using kc ki by auto
      show ?thesis using d b l k by blast
    qed
  qed
qed

lemma scan_and_import_trace:
  assumes c: "cosOfBucket p bxCli opt 0 None rs = (evs, out)"
    and t: "tr = (case out of Return (found, s3) \<Rightarrow> evs @ fst (import_from p opt bxCli rc found s3) | _ \<Rightarrow> evs)"
    and r: "res = (case out of Return (found, s3) \<Rightarrow> snd (import_from p opt bxCli rc found s3)
                    | Exit n \<Rightarrow> Exit n | Panic x \<Rightarrow> Panic x)"
  shows "distinct (map fst tr) \<and> no_retry tr
       \<and> (\<forall>ev \<in> set tr. scan_position (fst ev) \<noteq> None \<or> after_scan (fst ev))
       \<and> (\<forall>c. tr \<noteq> [] \<and> last tr = (c, True) \<and> scan_position c = None \<longrightarrow> (\<exists>e. res = Return (Some e)))"
proof -
  note ct = cosOfBucket_trace[OF c]
  have ps: "\<forall>ev \<in> set evs. scan_position (fst ev) \<noteq> None"
    using cosOfBucket_events[OF c] by fastforce
  show ?thesis
  proof (cases "\<exists>found s3. out = Return (found, s3)")
    case False
    then have "tr = evs"
      using t by (auto split: outcome.splits)
    then show ?thesis
      using ct ps by (metis (no_types, lifting) fst_conv last_in_set)
  next
    case True
    then obtain found s3 where o: "out = Return (found, s3)"
      by blast
    obtain evf outf where f: "import_from p opt bxCli rc found s3 = (evf, outf)"
      by (cases "import_from p opt bxCli rc found s3")
    note ft = import_from_trace[OF f]
    have tr: "tr = evs @ evf" and res: "res = outf"
      using t r o f by auto
    have empty: "found = None \<longrightarrow> evf = []"
      using import_from_unchecked[OF f] by blast
    have disj: "set (map fst evs) \<inter> set (map fst evf) = {}"
    proof -
      have "\<And>c. c \<in> set (map fst evs) \<Longrightarrow> c \<in> set (map fst evf) \<Longrightarrow> False"
      proof -
        fix c assume "c \<in> set (map fst evs)" "c \<in> set (map fst evf)"
        then have "scan_position c \<noteq> None" "after_scan c"
          using ps ft by auto
        then show False by (cases c) simp_all
      qed
      then show ?thesis by blast
    qed
    have d: "distinct (map fst tr)"
      unfolding tr using ct ft disj by simp
    have link: "evs \<noteq> [] \<and> evf \<noteq> [] \<and> snd (last evs) \<longrightarrow> skipped_to (fst (last evs)) (fst (hd evf))"
      using ct o empty by (cases found) auto
    have n: "no_retry tr"
      unfolding tr using no_retry_append[OF _ _ link] ct no_retry_quiet ft by blast
    have k: "\<forall>ev \<in> set tr. scan_position (fst ev) \<noteq> None \<or> after_scan (fst ev)"
      unfolding tr using ps ft by auto
    have l: "\<forall>c. tr \<noteq> [] \<and> last tr = (c, True) \<and> scan_position c = None \<longrightarrow> (\<exists>e. res = Return (Some e))"
    proof (cases "evf = []")
      case True
      then show ?thesis
        unfolding tr using ps by (metis append_Nil2 fst_conv last_in_set)
    next
      case False
      then show ?thesis
        unfolding tr res using ft by auto
    qed
    show ?thesis using d n k l by blast
  qed
qed

subsection \<open>How a run ends before the scan\<close>

lemma RunE_cases:
  "RunE p opt apikey = ([], Exit 1)
   \<or> (\<exists>e. RunE p opt apikey = ([(CallNewClient apikey, True)], Return (Some e)))
   \<or> (\<exists>e. RunE p opt apikey =
         ([(CallNewClient apikey, False), (CallNewIamAuthenticator apikey, True)], Return (Some e)))
   \<or> (\<exists>e. RunE p opt apikey =
         ([(CallNewClient apikey, False), (CallNewIamAuthenticator apikey, False),
           (CallNewResourceControllerV2, True)], Return (Some e)))
   \<or> RunE p opt apikey =
         ([(CallNewClient apikey, False), (CallNewIamAuthenticator apikey, False),
           (CallNewResourceControllerV2, False)], Panic ''resourceController'')
   \<or> (\<exists>e. RunE p opt apikey =
         ([(CallNewClient apikey, False), (CallNewIamAuthenticator apikey, False),
           (CallNewResourceControllerV2, False), (CallListResourceInstances ''service_instance'', True)],
          Return (Some e)))
   \<or> RunE p opt apikey = (setup_events apikey, Panic ''instances'')
   \<or> (\<exists>bxCli rc rs evs out.
         cosOfBucket p bxCli opt 0 None rs = (evs, out)
         \<and> RunE p opt apikey =
             (setup_events apikey
                @ (case out of Return (found, s3) \<Rightarrow> evs @ fst (import_from p opt bxCli rc found s3) | _ \<Rightarrow> evs),
              (case out of Return (found, s3) \<Rightarrow> snd (import_from p opt bxCli rc found s3)
               | Exit n \<Rightarrow> Exit n | Panic x \<Rightarrow> Panic x)))"
proof (cases "\<exists>bxCli auth rc insts.
          (OsType opt = '''' \<or> utils_Contains validOsType (strings_ToLower p (OsType opt)))
          \<and> utils_Contains validStorageType (strings_ToLower p (StorageType opt))
          \<and> client_NewClient p apikey = (bxCli, None)
          \<and> core_NewIamAuthenticator p apikey = (auth, None)
          \<and> client_NewResourceControllerV2 p auth = (Some rc, None)
          \<and> rc_ListResourceInstances rc ''service_instance'' = (Some insts, None)")
  case True
  then obtain bxCli auth rc insts where h:
      "OsType opt = '''' \<or> utils_Contains validOsType (strings_ToLower p (OsType opt))"
      "utils_Contains validStorageType (strings_ToLower p (StorageType opt))"
      "client_NewClient p apikey = (bxCli, None)"
      "core_NewIamAuthenticator p apikey = (auth, None)"
      "client_NewResourceControllerV2 p auth = (Some rc, None)"
      "rc_ListResourceInstances rc ''service_instance'' = (Some insts, None)"
    by blast
  then have s: "scans p opt apikey bxCli rc (ril_Resources insts)"
    by (auto simp: scans_def utils_Contains_def)
  obtain evs out where c: "cosOfBucket p bxCli opt 0 None (ril_Resources insts) = (evs, out)"
    by (cases "cosOfBucket p bxCli opt 0 None (ril_Resources insts)")
  have "RunE p opt apikey =
             (setup_events apikey
                @ (case out of Return (found, s3) \<Rightarrow> evs @ fst (import_from p opt bxCli rc found s3) | _ \<Rightarrow> evs),
              (case out of Return (found, s3) \<Rightarrow> snd (import_from p opt bxCli rc found s3)
               | Exit n \<Rightarrow> Exit n | Panic x \<Rightarrow> Panic x))"
    using RunE_scans[OF s c] by (simp split: outcome.splits prod.splits)
  then show ?thesis using c by blast
next
  case False
  then show ?thesis
    by (simp add: RunE_def logged_def errored_def setup_events_def
             split: option.splits prod.splits)
       (auto simp: utils_Contains_def)
qed

subsection \<open>After a COS instance is found\<close>

lemma cos_probe_found:
  assumes "cos_probe p bxCli opt i s r = (evs, Return (True, s'))"
  shows "ri_Name r \<noteq> None \<and> s' \<noteq> None"
  using assms
  by (auto simp: cos_probe_def logged_def split: option.splits prod.splits outcome.splits if_splits)

lemma cosOfBucket_found:
  assumes "cosOfBucket p bxCli opt i s rs = (evs, Return (Some cos, s'))"
  shows "ri_Name cos \<noteq> None \<and> s' \<noteq> None \<and> cos \<in> set rs"
  using assms
proof (induction rs arbitrary: i s evs)
  case Nil
  then show ?case by simp
next
  case (Cons r rs)
  obtain evs0 out0 where pr: "cos_probe p bxCli opt i s r = (evs0, out0)"
    by (cases "cos_probe p bxCli opt i s r")
  show ?case
  proof (cases "\<exists>s1. out0 = Return (False, s1)")
    case True
    then obtain s1 where o: "out0 = Return (False, s1)" by blast
    obtain evs1 out1 where rec: "cosOfBucket p bxCli opt (Suc i) s1 rs = (evs1, out1)"
      by (cases "cosOfBucket p bxCli opt (Suc i) s1 rs")
    then have "out1 = Return (Some cos, s')"
      using Cons.prems pr o by simp
    with Cons.IH rec show ?thesis by auto
  next
    case False
    then have "out0 = Return (True, s')" and "cos = r"
      using Cons.prems pr by (auto split: outcome.splits bool.splits)
    then show ?thesis using cos_probe_found pr by auto
  qed
qed

lemma RunE_found:
  assumes "scans p opt apikey bxCli rc resources"
    and "cosOfBucket p bxCli opt 0 None resources = (evs, Return (Some cos, Some s3))"
    and "ri_ID cos = Some cosID"
  shows "RunE p opt apikey =
     (if \<not> s3_CheckIfObjectExists s3 (BucketName opt) (ImageFilename opt) then
        (setup_events apikey @ evs @ [(CallCheckIfObjectExists (BucketName opt) (ImageFilename opt), True)],
         Return (Some (Error (''failed to found the object '' @ ImageFilename opt
                                @ '' in '' @ BucketName opt @ '' bucket''))))
      else
        (case service_credential p opt rc cosID of
           (evc, Panic x) \<Rightarrow>
             (setup_events apikey @ evs
                @ (CallCheckIfObjectExists (BucketName opt) (ImageFilename opt), False) # evc, Panic x)
         | (evc, Exit k) \<Rightarrow>
             (setup_events apikey @ evs
                @ (CallCheckIfObjectExists (BucketName opt) (ImageFilename opt), False) # evc, Exit k)
         | (evc, Return (Inl e)) \<Rightarrow>
             (setup_events apikey @ evs
                @ (CallCheckIfObjectExists (BucketName opt) (ImageFilename opt), False) # evc, Return (Some e))
         | (evc, Return (Inr (accessKey, secretKey))) \<Rightarrow>
             (setup_events apikey @ evs
                @ (CallCheckIfObjectExists (BucketName opt) (ImageFilename opt), False) # evc
                @ fst (import_image p opt bxCli accessKey secretKey),
              snd (import_image p opt bxCli accessKey secretKey))))"
proof -
  from cosOfBucket_found[OF assms(2)] obtain n where n: "ri_Name cos = Some n"
    by auto
  have "RunE p opt apikey =
      (setup_events apikey @ evs @ fst (import_from p opt bxCli rc (Some cos) (Some s3)),
       snd (import_from p opt bxCli rc (Some cos) (Some s3)))"
    using RunE_scans[OF assms(1,2)] by simp
  then show ?thesis
    by (simp add: import_from_checked[OF refl n assms(3) refl] split: prod.splits outcome.splits sum.splits)
qed

lemma service_credential_listed:
  assumes "AccessKey opt = '''' \<or> SecretKey opt = ''''"
    and "rc_ListResourceKeys rc (ServiceCredName opt) = (Some keys, None)"
  shows "service_credential p opt rc cosID =
     (case rkl_Resources keys of
        [] \<Rightarrow>
          (case rc_CreateResourceKey rc (ServiceCredName opt) cosID [(''HMAC'', True)] of
             (key, err) \<Rightarrow>
               ([(CallListResourceKeys (ServiceCredName opt), False),
                 (CallCreateResourceKey (ServiceCredName opt) cosID [(''HMAC'', True)], errored err)],
                (case err of
                   Some e \<Rightarrow> Return (Inl e)
                 | None \<Rightarrow>
                     (case key of
                        None \<Rightarrow> Panic ''key''
                      | Some k \<Rightarrow> hmac_of_credential p (key_Credentials k)))))
      | k # others \<Rightarrow>
          ([(CallListResourceKeys (ServiceCredName opt), False)], hmac_of_credential p (key_Credentials k)))"
  using assms
  by (auto simp: service_credential_def logged_def errored_def split: list.splits option.splits prod.splits)

lemma hmac_of_credential_Inr:
  "hmac_of_credential p cred = Return (Inr (ak, sk)) \<longleftrightarrow>
     (\<exists>cr h. cred = Some cr
        \<and> snd (json_Marshal p (cred_GetProperty cr ''cos_hmac_keys'')) = None
        \<and> json_Unmarshal p (fst (json_Marshal p (cred_GetProperty cr ''cos_hmac_keys''))) = (h, None)
        \<and> ak = AccessKeyID h \<and> sk = SecretKeyID h)"
  by (auto simp: hmac_of_credential_def split: option.splits prod.splits)

lemma scan_events_kind:
  assumes "cosOfBucket p bxCli opt i s rs = (evs, out)" and "ev \<in> set evs"
  shows "\<not> after_scan (fst ev) \<and> \<not> provisions_or_imports (fst ev)"
proof -
  from cosOfBucket_events[OF assms] obtain j where "scan_position (fst ev) = Some j"
    by blast
  then show ?thesis by (cases "fst ev") simp_all
qed

subsection \<open>The trace of a whole run\<close>

lemma no_retry_after_setup:
  assumes "no_retry tr"
  shows "no_retry (setup_events apikey @ tr)"
proof -
  have "no_retry (setup_events apikey)"
    by (simp add: setup_events_def)
  moreover have "\<not> snd (last (setup_events apikey))"
    by (simp add: setup_events_def)
  ultimately show ?thesis
    using assms no_retry_append by blast
qed

lemma RunE_trace:
  "distinct (map fst (fst (RunE p opt apikey)))
   \<and> no_retry (fst (RunE p opt apikey))
   \<and> (\<forall>c. fst (RunE p opt apikey) \<noteq> [] \<and> last (fst (RunE p opt apikey)) = (c, True)
            \<and> scan_position c = None
          \<longrightarrow> (\<exists>e. snd (RunE p opt apikey) = Return (Some e)))"
proof -
  consider (early) "length (fst (RunE p opt apikey)) \<le> 4"
      "RunE p opt apikey = ([], Exit 1)
       \<or> (\<exists>e. RunE p opt apikey = ([(CallNewClient apikey, True)], Return (Some e)))
       \<or> (\<exists>e. RunE p opt apikey =
             ([(CallNewClient apikey, False), (CallNewIamAuthenticator apikey, True)], Return (Some e)))
       \<or> (\<exists>e. RunE p opt apikey =
             ([(CallNewClient apikey, False), (CallNewIamAuthenticator apikey, False),
               (CallNewResourceControllerV2, True)], Return (Some e)))
       \<or> RunE p opt apikey =
             ([(CallNewClient apikey, False), (CallNewIamAuthenticator apikey, False),
               (CallNewResourceControllerV2, False)], Panic ''resourceController'')
       \<or> (\<exists>e. RunE p opt apikey =
             ([(CallNewClient apikey, False), (CallNewIamAuthenticator apikey, False),
               (CallNewResourceControllerV2, False), (CallListResourceInstances ''service_instance'', True)],
              Return (Some e)))
       \<or> RunE p opt apikey = (setup_events apikey, Panic ''instances'')"
    | (scan) bxCli rc rs evs out where
        "cosOfBucket p bxCli opt 0 None rs = (evs, out)"
        "RunE p opt apikey =
             (setup_events apikey
                @ (case out of Return (found, s3) \<Rightarrow> evs @ fst (import_from p opt bxCli rc found s3) | _ \<Rightarrow> evs),
              (case out of Return (found, s3) \<Rightarrow> snd (import_from p opt bxCli rc found s3)
               | Exit n \<Rightarrow> Exit n | Panic x \<Rightarrow> Panic x))"
    using RunE_cases[of p opt apikey] by (auto simp: setup_events_def)
  then show ?thesis
  proof cases
    case early
    from early(2) show ?thesis
      by (elim disjE exE) (simp_all add: setup_events_def)
  next
    case scan
    define tr where "tr = (case out of Return (found, s3) \<Rightarrow> evs @ fst (import_from p opt bxCli rc found s3)
                            | _ \<Rightarrow> evs)"
    define res where "res = (case out of Return (found, s3) \<Rightarrow> snd (import_from p opt bxCli rc found s3)
                              | Exit n \<Rightarrow> Exit n | Panic x \<Rightarrow> Panic x)"
    note st = scan_and_import_trace[OF scan(1) tr_def res_def]
    have r: "RunE p opt apikey = (setup_events apikey @ tr, res)"
      using scan(2) tr_def res_def by simp
    have kinds: "\<forall>ev \<in> set tr. fst ev \<notin> set (map fst (setup_events apikey))"
    proof
      fix ev assume "ev \<in> set tr"
      with st have "scan_position (fst ev) \<noteq> None \<or> after_scan (fst ev)"
        by blast
      then show "fst ev \<notin> set (map fst (setup_events apikey))"
        by (cases "fst ev") (auto simp: setup_events_def)
    qed
    have d: "distinct (map fst (setup_events apikey @ tr))"
      using st kinds by (auto simp: setup_events_def)
    have n: "no_retry (setup_events apikey @ tr)"
      using st by (simp add: no_retry_after_setup)
    have l: "\<forall>c. setup_events apikey @ tr \<noteq> [] \<and> last (setup_events apikey @ tr) = (c, True)
                  \<and> scan_position c = None \<longrightarrow> (\<exists>e. res = Return (Some e))"
    proof (cases "tr = []")
      case True
      then show ?thesis by (simp add: setup_events_def)
    next
      case False
      then show ?thesis using st by simp
    qed
    show ?thesis
      unfolding r using d n l by simp
  qed
qed

subsection \<open>The order of the scan\<close>

lemma visited_append: "visited (xs @ ys) = visited xs @ visited ys"
  by (simp add: visited_def map_filter_def)

lemma cos_probe_visited:
  assumes "cos_probe p bxCli opt i s r = (evs, out)"
  shows "set (visited evs) \<subseteq> {i} \<and> sorted (visited evs) \<and> (visited evs \<noteq> [] \<longrightarrow> is_cos r)"
  using assms
  by (auto simp: cos_probe_def logged_def visited_def map_filter_def is_cos_def
           split: option.splits prod.splits outcome.splits if_splits)

lemma cosOfBucket_visited:
  assumes "cosOfBucket p bxCli opt i s rs = (evs, out)"
  shows "sorted (visited evs)
       \<and> (\<forall>j \<in> set (visited evs). i \<le> j \<and> j < i + length rs \<and> is_cos (rs ! (j - i)))"
  using assms
proof (induction rs arbitrary: i s evs out)
  case Nil
  then show ?case by (simp add: visited_def map_filter_def)
next
  case (Cons r rs)
  obtain evs0 out0 where pr: "cos_probe p bxCli opt i s r = (evs0, out0)"
    by (cases "cos_probe p bxCli opt i s r")
  note v0 = cos_probe_visited[OF pr]
  have here: "\<forall>j \<in> set (visited evs0). i \<le> j \<and> j < i + length (r # rs) \<and> is_cos ((r # rs) ! (j - i))"
    using v0 by auto
  show ?case
  proof (cases "\<exists>s'. out0 = Return (False, s')")
    case False
    then have "evs = evs0"
      using Cons.prems pr by (auto split: outcome.splits bool.splits)
    then show ?thesis using v0 here by simp
  next
    case True
    then obtain s' where o0: "out0 = Return (False, s')"
      by blast
    obtain evs1 out1 where rec: "cosOfBucket p bxCli opt (Suc i) s' rs = (evs1, out1)"
      by (cases "cosOfBucket p bxCli opt (Suc i) s' rs")
    have e: "evs = evs0 @ evs1"
      using Cons.prems pr o0 rec by auto
    note ih = Cons.IH[OF rec]
    have later: "\<forall>j \<in> set (visited evs1). i \<le> j \<and> j < i + length (r # rs) \<and> is_cos ((r # rs) ! (j - i))"
    proof
      fix j assume "j \<in> set (visited evs1)"
      with ih have j: "Suc i \<le> j" "j < Suc i + length rs" "is_cos (rs ! (j - Suc i))"
        by auto
      then have "(r # rs) ! (j - i) = rs ! (j - Suc i)"
        by (simp add: nth_Cons' Suc_diff_le)
      with j show "i \<le> j \<and> j < i + length (r # rs) \<and> is_cos ((r # rs) ! (j - i))"
        by simp
    qed
    have "sorted (visited evs0 @ visited evs1)"
      using v0 ih by (fastforce simp: sorted_append)
    then show ?thesis
      unfolding e visited_append using here later by auto
  qed
qed

subsection \<open>The scan exits at an owner\<close>

lemma cos_probe_found_client:
  assumes "cos_probe p bxCli opt i s r = (evs, Return (True, s'))"
  shows "\<exists>name s3. ri_Name r = Some name
           \<and> client_NewS3Client p bxCli name (Region opt) = (Some s3, None)
           \<and> s' = Some s3
           \<and> evs = [(CallNewS3Client i name (Region opt), False), (CallListBuckets i, False)]"
  using assms
  by (auto simp: cos_probe_def logged_def errored_def
           split: option.splits prod.splits outcome.splits if_splits)

lemma cosOfBucket_early_exit:
  assumes "owns_bucket p bxCli opt cos"
  shows "cosOfBucket p bxCli opt i s (before @ cos # after) = cosOfBucket p bxCli opt i s (before @ [cos])"
proof (induction before arbitrary: i s)
  case Nil
  obtain evs out where pr: "cos_probe p bxCli opt i s cos = (evs, out)"
    by (cases "cos_probe p bxCli opt i s cos")
  show ?case
  proof (cases out)
    case (Return x)
    obtain b s' where x: "x = (b, s')"
      by (cases x)
    from cos_probe_returns[OF pr[unfolded Return x]] assms have "b"
      by simp
    then show ?thesis using pr Return x by simp
  next
    case (Exit n)
    then show ?thesis using pr by simp
  next
    case (Panic m)
    then show ?thesis using pr by simp
  qed
next
  case (Cons r before)
  obtain evs out where pr: "cos_probe p bxCli opt i s r = (evs, out)"
    by (cases "cos_probe p bxCli opt i s r")
  show ?case
  proof (cases out)
    case (Return x)
    obtain b s' where x: "x = (b, s')"
      by (cases x)
    show ?thesis
      using pr Return x Cons.IH[of "Suc i" s'] by (cases b) simp_all
  next
    case (Exit n)
    then show ?thesis using pr by simp
  next
    case (Panic m)
    then show ?thesis using pr by simp
  qed
qed

lemma cosOfBucket_found_client:
  assumes "cosOfBucket p bxCli opt i s rs = (evs, Return (Some cos, s'))"
  shows "\<exists>k name s3 pre.
           k < length rs \<and> rs ! k = cos \<and> (\<forall>j<k. \<not> owns_bucket p bxCli opt (rs ! j))
           \<and> ri_Name cos = Some name
           \<and> client_NewS3Client p bxCli name (Region opt) = (Some s3, None)
           \<and> s' = Some s3
           \<and> evs = pre @ [(CallNewS3Client (i + k) name (Region opt), False), (CallListBuckets (i + k), False)]"
  using assms
proof (induction rs arbitrary: i s evs)
  case Nil
  then show ?case by simp
next
  case (Cons r rs)
  obtain evs0 out0 where pr: "cos_probe p bxCli opt i s r = (evs0, out0)"
    by (cases "cos_probe p bxCli opt i s r")
  from Cons.prems pr obtain b s0 where o: "out0 = Return (b, s0)"
    by (cases out0) auto
  show ?case
  proof (cases b)
    case True
    then have e: "evs = evs0" "cos = r" "s' = s0"
      using Cons.prems pr o by simp_all
    from cos_probe_found_client[OF pr[unfolded o True[THEN eqTrueI]]]
    obtain name s3 where "ri_Name r = Some name"
      "client_NewS3Client p bxCli name (Region opt) = (Some s3, None)" "s0 = Some s3"
      "evs0 = [(CallNewS3Client i name (Region opt), False), (CallListBuckets i, False)]"
      by blast
    then have "0 < length (r # rs) \<and> (r # rs) ! 0 = cos
           \<and> (\<forall>j<0. \<not> owns_bucket p bxCli opt ((r # rs) ! j))
           \<and> ri_Name cos = Some name
           \<and> client_NewS3Client p bxCli name (Region opt) = (Some s3, None)
           \<and> s' = Some s3
           \<and> evs = [] @ [(CallNewS3Client (i + 0) name (Region opt), False), (CallListBuckets (i + 0), False)]"
      using e by simp
    then show ?thesis by blast
  next
    case False
    have nr: "\<not> owns_bucket p bxCli opt r"
      using cos_probe_returns[OF pr[unfolded o]] False by simp
    obtain evs1 out1 where rec: "cosOfBucket p bxCli opt (Suc i) s0 rs = (evs1, out1)"
      by (cases "cosOfBucket p bxCli opt (Suc i) s0 rs")
    then have o1: "out1 = Return (Some cos, s')" and e: "evs = evs0 @ evs1"
      using Cons.prems pr o False by simp_all
    from Cons.IH[OF rec[unfolded o1]]
    obtain k name s3 pre where k: "k < length rs" "rs ! k = cos"
      "\<forall>j<k. \<not> owns_bucket p bxCli opt (rs ! j)"
      "ri_Name cos = Some name"
      "client_NewS3Client p bxCli name (Region opt) = (Some s3, None)"
      "s' = Some s3"
      "evs1 = pre @ [(CallNewS3Client (Suc i + k) name (Region opt), False), (CallListBuckets (Suc i + k), False)]"
      by blast
    have before: "\<forall>j<Suc k. \<not> owns_bucket p bxCli opt ((r # rs) ! j)"
    proof (intro allI impI)
      fix j assume "j < Suc k"
      then show "\<not> owns_bucket p bxCli opt ((r # rs) ! j)"
        using nr k(3) by (cases j) simp_all
    qed
    have "Suc k < length (r # rs) \<and> (r # rs) ! Suc k = cos
           \<and> (\<forall>j<Suc k. \<not> owns_bucket p bxCli opt ((r # rs) ! j))
           \<and> ri_Name cos = Some name
           \<and> client_NewS3Client p bxCli name (Region opt) = (Some s3, None)
           \<and> s' = Some s3
           \<and> evs = (evs0 @ pre) @ [(CallNewS3Client (i + Suc k) name (Region opt), False),
                                    (CallListBuckets (i + Suc k), False)]"
      using k before e by simp
    then show ?thesis by blast
  qed
qed

section \<open>The example account, evaluated\<close>

lemma crn_workspace: "\<not> strings_Contains ''crn:v1:public:power-iaas:us-south'' ''cloud-object-storage''"
  by code_simp

lemma crn_cos:
  "strings_Contains ''crn:v1:public:cloud-object-storage:global:1'' ''cloud-object-storage''"
  "strings_Contains ''crn:v1:public:cloud-object-storage:global:2'' ''cloud-object-storage''"
  "strings_Contains ''crn:v1:public:cloud-object-storage:global:3'' ''cloud-object-storage''"
  by code_simp+

lemma lower_flags: "ascii_lower ''RedHat'' = ''redhat''" "ascii_lower ''Tier1'' = ''tier1''"
  by code_simp+

lemmas account_defs =
  cloud_def controller_def workspace_def cos_down_def cos_logs_def cos_images_def
  s3_logs_def s3_images_def s3_with_def

lemma account_scans:
  assumes "OsType opt = ''RedHat''" and "StorageType opt = ''Tier1''"
  shows "scans (cloud existing) opt ''key'' (Some 1) (controller existing)
           [workspace, cos_down, cos_logs, cos_images]"
  using assms
  by (simp add: scans_def cloud_def controller_def lower_flags validOsType_def validStorageType_def)

lemma account_sound:
  "list_all (sound_resource (cloud existing) (Some 1) opt) [workspace, cos_down, cos_logs, cos_images]"
  by (simp add: sound_resource_def account_defs crn_workspace crn_cos has_name_def)

lemma account_scan_of_images:
  assumes "BucketName opt = ''images''" and "Region opt = ''us-south''"
  shows "cosOfBucket (cloud existing) (Some 1) opt 0 None [workspace, cos_down, cos_logs, cos_images]
           = (scan_of_images, Return (Some cos_images, Some s3_images))"
  using assms
  by (simp add: cos_probe_def account_defs crn_workspace crn_cos logged_def errored_def scan_of_images_def)

section \<open>The import command\<close>

text \<open>
  C9. \<open>RunE\<close> exits with status 1 exactly when \<open>OsType\<close> is not empty and its lower
  case is none of \<open>aix\<close>, \<open>ibmi\<close>, \<open>redhat\<close>, \<open>sles\<close>, or the lower case of
  \<open>StorageType\<close> is neither \<open>tier1\<close> nor \<open>tier3\<close>; it has made no call by then, and a
  run that passes the check starts with \<open>NewClient\<close>. Every image post of a run carries
  the lower case of \<open>OsType\<close> and \<open>StorageType\<close>.
\<close>

theorem RunE_flag_validation:
  "(snd (RunE p opt apikey) = Exit 1 \<longleftrightarrow>
       (OsType opt \<noteq> '''' \<and> strings_ToLower p (OsType opt) \<notin> {''aix'', ''ibmi'', ''redhat'', ''sles''})
       \<or> strings_ToLower p (StorageType opt) \<notin> {''tier1'', ''tier3''})
   \<and> (snd (RunE p opt apikey) = Exit 1 \<longrightarrow> fst (RunE p opt apikey) = [])
   \<and> (snd (RunE p opt apikey) \<noteq> Exit 1 \<longrightarrow>
        (\<exists>failed rest. fst (RunE p opt apikey) = (CallNewClient apikey, failed) # rest))
   \<and> (\<forall>iid body failed. (CallImagesPost iid body, failed) \<in> set (fst (RunE p opt apikey)) \<longrightarrow>
        body_OsType body = strings_ToLower p (OsType opt)
        \<and> body_DiskType body = strings_ToLower p (StorageType opt))"
proof -
  have a: "snd (RunE p opt apikey) = Exit 1 \<longleftrightarrow>
       (OsType opt \<noteq> '''' \<and> strings_ToLower p (OsType opt) \<notin> {''aix'', ''ibmi'', ''redhat'', ''sles''})
       \<or> strings_ToLower p (StorageType opt) \<notin> {''tier1'', ''tier3''}"
    by (simp add: RunE_exit validOsType_def validStorageType_def) blast
  have b: "snd (RunE p opt apikey) = Exit 1 \<longrightarrow> fst (RunE p opt apikey) = []"
    using RunE_first_call[of p opt apikey] by auto
  have c: "snd (RunE p opt apikey) \<noteq> Exit 1 \<longrightarrow>
        (\<exists>failed rest. fst (RunE p opt apikey) = (CallNewClient apikey, failed) # rest)"
    using RunE_first_call[of p opt apikey] by auto
  have d: "\<forall>iid body failed. (CallImagesPost iid body, failed) \<in> set (fst (RunE p opt apikey)) \<longrightarrow>
        body_OsType body = strings_ToLower p (OsType opt)
        \<and> body_DiskType body = strings_ToLower p (StorageType opt)"
    using RunE_ImagesPost_body[of _ _ _ p opt apikey]
    by (fastforce simp: request_body_def Let_def)
  show ?thesis using a b c d by blast
qed

theorem RunE_flag_validation_witness:
  "RunE (cloud []) (flags \<lparr> OsType := ''Solaris'' \<rparr>) ''key'' = ([], Exit 1)
   \<and> RunE (cloud []) (flags \<lparr> StorageType := ''tier2'' \<rparr>) ''key'' = ([], Exit 1)
   \<and> snd (RunE (cloud []) (flags \<lparr> OsType := '''' \<rparr>) ''key'') = Return None
   \<and> OsType flags = ''RedHat'' \<and> StorageType flags = ''Tier1''
   \<and> last (fst (RunE (cloud []) flags ''key'')) =
        (CallImagesPost ''pvs-1''
           \<lparr> body_ImageName = ''test-image'', body_ImageFilename = ''rhel-83.ova.gz'',
             body_Region = ''us-south'', body_AccessKey = ''AK-new'', body_SecretKey = ''SK-new'',
             body_BucketName = ''images'', body_OsType = ''redhat'', body_DiskType = ''tier1'',
             body_Source = Some ''url'' \<rparr>, False)"
proof -
  have a: "strings_ToLower (cloud []) (OsType (flags \<lparr> OsType := ''Solaris'' \<rparr>))
             \<notin> {''aix'', ''ibmi'', ''redhat'', ''sles''}"
    by code_simp
  have b: "strings_ToLower (cloud []) (StorageType (flags \<lparr> StorageType := ''tier2'' \<rparr>))
             \<notin> {''tier1'', ''tier3''}"
    by code_simp
  have c: "snd (RunE (cloud []) (flags \<lparr> OsType := '''' \<rparr>) ''key'') = Return None"
    by code_simp
  have d: "last (fst (RunE (cloud []) flags ''key'')) =
        (CallImagesPost ''pvs-1''
           \<lparr> body_ImageName = ''test-image'', body_ImageFilename = ''rhel-83.ova.gz'',
             body_Region = ''us-south'', body_AccessKey = ''AK-new'', body_SecretKey = ''SK-new'',
             body_BucketName = ''images'', body_OsType = ''redhat'', body_DiskType = ''tier1'',
             body_Source = Some ''url'' \<rparr>, False)"
    by code_simp
  have e: "OsType flags = ''RedHat'' \<and> StorageType flags = ''Tier1''"
    by (simp add: flags_def)
  have f: "OsType (flags \<lparr> OsType := ''Solaris'' \<rparr>) \<noteq> ''''"
    by simp
  show ?thesis
    using RunE_flag_validation[of "cloud []" "flags \<lparr> OsType := ''Solaris'' \<rparr>" "''key''"]
          RunE_flag_validation[of "cloud []" "flags \<lparr> StorageType := ''tier2'' \<rparr>" "''key''"]
          a b c d e f
    by (simp add: prod_eq_iff)
qed

text \<open>
  C3. In a run of \<open>RunE\<close> that reaches the scan, \<open>cosOfBucket\<close>, whenever it returns,
  returns the first instance of the list that owns the bucket (nil when there is none).
  The scan exits at an owner: what follows an owner in the list changes neither the calls
  nor the result, no call is made for an instance after it, and the scan returns the
  first owner when the instances up to it are read without a panic (all of them, when
  there is no owner). When an instance is returned, the last two calls are its
  \<open>NewS3Client\<close> and \<open>ListBuckets\<close>, both successful, and the client handed on is the
  one created for it. The calls are for instances in list order, each a COS instance of
  the list. When nil is returned, \<open>RunE\<close> returns the error
  \<open>failed to find the COS instance\<close> and makes no call after the scan: no object check,
  no call for the service credential, no PowerVS client and no image post.
\<close>

theorem cosOfBucket_first_owner:
  assumes "scans p opt apikey bxCli rc resources"
  shows "(\<forall>evs found s3client.
            cosOfBucket p bxCli opt 0 None resources = (evs, Return (found, s3client)) \<longrightarrow>
            found = find (owns_bucket p bxCli opt) resources)
       \<and> (list_all (sound_resource p bxCli opt) resources \<longrightarrow>
            (\<exists>evs s3client. cosOfBucket p bxCli opt 0 None resources
               = (evs, Return (find (owns_bucket p bxCli opt) resources, s3client))))
       \<and> (\<forall>evs out.
            cosOfBucket p bxCli opt 0 None resources = (evs, out) \<longrightarrow>
            sorted (visited evs)
            \<and> (\<forall>j \<in> set (visited evs). j < length resources \<and> is_cos (resources ! j)))
       \<and> ((\<exists>evs s3client. cosOfBucket p bxCli opt 0 None resources = (evs, Return (None, s3client))) \<longrightarrow>
            snd (RunE p opt apikey) =
              Return (Some (Error (''failed to find the COS instance for the bucket mentioned: ''
                                   @ BucketName opt)))
            \<and> (\<forall>ev \<in> set (fst (RunE p opt apikey)). \<not> after_scan (fst ev)))
       \<and> (\<forall>before cos after.
            resources = before @ cos # after \<and> owns_bucket p bxCli opt cos \<longrightarrow>
            cosOfBucket p bxCli opt 0 None resources = cosOfBucket p bxCli opt 0 None (before @ [cos])
            \<and> (\<forall>j \<in> set (visited (fst (cosOfBucket p bxCli opt 0 None resources))). j \<le> length before))
       \<and> (\<forall>before cos after.
            resources = before @ cos # after \<and> owns_bucket p bxCli opt cos
            \<and> list_all (\<lambda>r. \<not> owns_bucket p bxCli opt r) before
            \<and> list_all (sound_resource p bxCli opt) (before @ [cos]) \<longrightarrow>
            (\<exists>evs s3client. cosOfBucket p bxCli opt 0 None resources = (evs, Return (Some cos, s3client))))
       \<and> (\<forall>evs cos s3client.
            cosOfBucket p bxCli opt 0 None resources = (evs, Return (Some cos, s3client)) \<longrightarrow>
            (\<exists>k name s3 pre.
               k < length resources \<and> resources ! k = cos
               \<and> (\<forall>j<k. \<not> owns_bucket p bxCli opt (resources ! j))
               \<and> ri_Name cos = Some name
               \<and> client_NewS3Client p bxCli name (Region opt) = (Some s3, None)
               \<and> s3client = Some s3
               \<and> evs = pre @ [(CallNewS3Client k name (Region opt), False), (CallListBuckets k, False)]))"
proof -
  have a: "\<forall>evs found s3client.
            cosOfBucket p bxCli opt 0 None resources = (evs, Return (found, s3client)) \<longrightarrow>
            found = find (owns_bucket p bxCli opt) resources"
    using cosOfBucket_returns by blast
  have b: "list_all (sound_resource p bxCli opt) resources \<longrightarrow>
            (\<exists>evs s3client. cosOfBucket p bxCli opt 0 None resources
               = (evs, Return (find (owns_bucket p bxCli opt) resources, s3client)))"
    using cosOfBucket_find by blast
  have c: "\<forall>evs out.
            cosOfBucket p bxCli opt 0 None resources = (evs, out) \<longrightarrow>
            sorted (visited evs)
            \<and> (\<forall>j \<in> set (visited evs). j < length resources \<and> is_cos (resources ! j))"
  proof (intro allI impI)
    fix evs out
    assume "cosOfBucket p bxCli opt 0 None resources = (evs, out)"
    from cosOfBucket_visited[OF this]
    show "sorted (visited evs) \<and> (\<forall>j \<in> set (visited evs). j < length resources \<and> is_cos (resources ! j))"
      by simp
  qed
  have d: "(\<exists>evs s3client. cosOfBucket p bxCli opt 0 None resources = (evs, Return (None, s3client))) \<longrightarrow>
            snd (RunE p opt apikey) =
              Return (Some (Error (''failed to find the COS instance for the bucket mentioned: ''
                                   @ BucketName opt)))
            \<and> (\<forall>ev \<in> set (fst (RunE p opt apikey)). \<not> after_scan (fst ev))"
  proof (intro impI, elim exE)
    fix evs s3client
    assume s: "cosOfBucket p bxCli opt 0 None resources = (evs, Return (None, s3client))"
    have "\<forall>ev \<in> set evs. \<not> after_scan (fst ev)"
      using scan_events_kind[OF s] by blast
    then show "snd (RunE p opt apikey) =
              Return (Some (Error (''failed to find the COS instance for the bucket mentioned: ''
                                   @ BucketName opt)))
            \<and> (\<forall>ev \<in> set (fst (RunE p opt apikey)). \<not> after_scan (fst ev))"
      using RunE_scans[OF assms s]
      by (auto simp: import_from_not_found setup_events_def)
  qed
  have e: "\<forall>before cos after.
            resources = before @ cos # after \<and> owns_bucket p bxCli opt cos \<longrightarrow>
            cosOfBucket p bxCli opt 0 None resources = cosOfBucket p bxCli opt 0 None (before @ [cos])
            \<and> (\<forall>j \<in> set (visited (fst (cosOfBucket p bxCli opt 0 None resources))). j \<le> length before)"
  proof (intro allI impI, elim conjE)
    fix before cos after
    assume r: "resources = before @ cos # after" and o: "owns_bucket p bxCli opt cos"
    have eq: "cosOfBucket p bxCli opt 0 None resources = cosOfBucket p bxCli opt 0 None (before @ [cos])"
      unfolding r by (rule cosOfBucket_early_exit[OF o])
    obtain evs out where pre: "cosOfBucket p bxCli opt 0 None (before @ [cos]) = (evs, out)"
      by (cases "cosOfBucket p bxCli opt 0 None (before @ [cos])")
    from cosOfBucket_visited[OF pre] have "\<forall>j \<in> set (visited evs). j \<le> length before"
      by auto
    then show "cosOfBucket p bxCli opt 0 None resources = cosOfBucket p bxCli opt 0 None (before @ [cos])
            \<and> (\<forall>j \<in> set (visited (fst (cosOfBucket p bxCli opt 0 None resources))). j \<le> length before)"
      using eq pre by simp
  qed
  have f: "\<forall>before cos after.
            resources = before @ cos # after \<and> owns_bucket p bxCli opt cos
            \<and> list_all (\<lambda>r. \<not> owns_bucket p bxCli opt r) before
            \<and> list_all (sound_resource p bxCli opt) (before @ [cos]) \<longrightarrow>
            (\<exists>evs s3client. cosOfBucket p bxCli opt 0 None resources = (evs, Return (Some cos, s3client)))"
  proof (intro allI impI, elim conjE)
    fix before cos after
    assume r: "resources = before @ cos # after" and o: "owns_bucket p bxCli opt cos"
      and n: "list_all (\<lambda>r. \<not> owns_bucket p bxCli opt r) before"
      and s: "list_all (sound_resource p bxCli opt) (before @ [cos])"
    have eq: "cosOfBucket p bxCli opt 0 None resources = cosOfBucket p bxCli opt 0 None (before @ [cos])"
      unfolding r by (rule cosOfBucket_early_exit[OF o])
    have fi: "find (owns_bucket p bxCli opt) (before @ [cos]) = Some cos"
      using n o by (induction before) simp_all
    from cosOfBucket_find[OF s, of 0 None]
    show "\<exists>evs s3client. cosOfBucket p bxCli opt 0 None resources = (evs, Return (Some cos, s3client))"
      unfolding eq fi .
  qed
  have g: "\<forall>evs cos s3client.
            cosOfBucket p bxCli opt 0 None resources = (evs, Return (Some cos, s3client)) \<longrightarrow>
            (\<exists>k name s3 pre.
               k < length resources \<and> resources ! k = cos
               \<and> (\<forall>j<k. \<not> owns_bucket p bxCli opt (resources ! j))
               \<and> ri_Name cos = Some name
               \<and> client_NewS3Client p bxCli name (Region opt) = (Some s3, None)
               \<and> s3client = Some s3
               \<and> evs = pre @ [(CallNewS3Client k name (Region opt), False), (CallListBuckets k, False)])"
  proof (intro allI impI)
    fix evs cos s3client
    assume "cosOfBucket p bxCli opt 0 None resources = (evs, Return (Some cos, s3client))"
    from cosOfBucket_found_client[OF this]
    show "\<exists>k name s3 pre.
               k < length resources \<and> resources ! k = cos
               \<and> (\<forall>j<k. \<not> owns_bucket p bxCli opt (resources ! j))
               \<and> ri_Name cos = Some name
               \<and> client_NewS3Client p bxCli name (Region opt) = (Some s3, None)
               \<and> s3client = Some s3
               \<and> evs = pre @ [(CallNewS3Client k name (Region opt), False), (CallListBuckets k, False)]"
      by simp
  qed
  show ?thesis
    using a b c d e f g by blast
qed

theorem cosOfBucket_first_owner_witness:
  "cosOfBucket (cloud []) (Some 1) flags 0 None [workspace, cos_down, cos_logs, cos_images]
     = (scan_of_images, Return (Some cos_images, Some s3_images))
   \<and> find (owns_bucket (cloud []) (Some 1) flags) [workspace, cos_down, cos_logs, cos_images]
       = Some cos_images
   \<and> visited scan_of_images = [1, 2, 2, 3, 3]
   \<and> snd (RunE (cloud []) (flags \<lparr> BucketName := ''nowhere'' \<rparr>) ''key'') =
        Return (Some (Error ''failed to find the COS instance for the bucket mentioned: nowhere''))
   \<and> filter (\<lambda>ev. after_scan (fst ev)) (fst (RunE (cloud []) (flags \<lparr> BucketName := ''nowhere'' \<rparr>) ''key''))
        = []
   \<and> sound_resource (cloud_listing [cos_down, cos_images, no_crn, cos_logs]) (Some 1) flags no_crn = False
   \<and> cosOfBucket (cloud_listing [cos_down, cos_images, no_crn, cos_logs]) (Some 1) flags 0 None
         [cos_down, cos_images, no_crn, cos_logs]
       = ([(CallNewS3Client 0 ''cos-down'' ''us-south'', True),
           (CallNewS3Client 1 ''cos-images'' ''us-south'', False), (CallListBuckets 1, False)],
          Return (Some cos_images, Some s3_images))
   \<and> cosOfBucket (cloud_listing [cos_down, cos_images, no_crn, cos_logs]) (Some 1) flags 0 None
         [cos_down, cos_images, no_crn, cos_logs]
       = cosOfBucket (cloud_listing [cos_down, cos_images, no_crn, cos_logs]) (Some 1) flags 0 None
           [cos_down, cos_images]"
proof -
  let ?rs = "[workspace, cos_down, cos_logs, cos_images]"
  let ?ls = "[cos_down, cos_images, no_crn, cos_logs]"
  have s: "scans (cloud []) flags ''key'' (Some 1) (controller []) ?rs"
    by (rule account_scans) (simp_all add: flags_def)
  have s': "scans (cloud []) (flags \<lparr> BucketName := ''nowhere'' \<rparr>) ''key'' (Some 1) (controller []) ?rs"
    by (rule account_scans) (simp_all add: flags_def)
  have s'': "scans (cloud_listing ?ls) flags ''key'' (Some 1) (controller_listing ?ls) ?ls"
    by (simp add: scans_def cloud_listing_def controller_listing_def cloud_def controller_def flags_def
          lower_flags validOsType_def validStorageType_def)
  have c: "cosOfBucket (cloud []) (Some 1) flags 0 None ?rs
             = (scan_of_images, Return (Some cos_images, Some s3_images))"
    by (rule account_scan_of_images) (simp_all add: flags_def)
  have v: "visited scan_of_images = [1, 2, 2, 3, 3]"
    by (simp add: visited_def scan_of_images_def map_filter_def)
  have f': "find (owns_bucket (cloud []) (Some 1) (flags \<lparr> BucketName := ''nowhere'' \<rparr>)) ?rs = None"
    by (simp add: owns_bucket_def account_defs flags_def crn_workspace crn_cos bucket_named_def)
  have n: "BucketName (flags \<lparr> BucketName := ''nowhere'' \<rparr>) = ''nowhere''"
    by simp
  note found = cosOfBucket_first_owner[OF s]
  note nowhere = cosOfBucket_first_owner[OF s']
  note listing = cosOfBucket_first_owner[OF s'']
  have a: "find (owns_bucket (cloud []) (Some 1) flags) ?rs = Some cos_images"
    using found c by auto
  have "\<exists>evs s3client. cosOfBucket (cloud []) (Some 1) (flags \<lparr> BucketName := ''nowhere'' \<rparr>) 0 None ?rs
           = (evs, Return (None, s3client))"
    using nowhere f' account_sound[of "[]" "flags \<lparr> BucketName := ''nowhere'' \<rparr>"] by auto
  then have b: "snd (RunE (cloud []) (flags \<lparr> BucketName := ''nowhere'' \<rparr>) ''key'') =
        Return (Some (Error ''failed to find the COS instance for the bucket mentioned: nowhere''))
      \<and> (\<forall>ev \<in> set (fst (RunE (cloud []) (flags \<lparr> BucketName := ''nowhere'' \<rparr>) ''key'')).
            \<not> after_scan (fst ev))"
    using nowhere n by auto
  have u: "sound_resource (cloud_listing ?ls) (Some 1) flags no_crn = False"
    by (simp add: sound_resource_def no_crn_def)
  have o: "owns_bucket (cloud_listing ?ls) (Some 1) flags cos_images"
    by (simp add: owns_bucket_def cloud_listing_def account_defs flags_def crn_cos bucket_named_def)
  have l: "?ls = [cos_down] @ cos_images # [no_crn, cos_logs]"
    by simp
  have e: "cosOfBucket (cloud_listing ?ls) (Some 1) flags 0 None ?ls
             = cosOfBucket (cloud_listing ?ls) (Some 1) flags 0 None ([cos_down] @ [cos_images])"
    using listing l o by blast
  have p: "cosOfBucket (cloud_listing ?ls) (Some 1) flags 0 None ([cos_down] @ [cos_images])
       = ([(CallNewS3Client 0 ''cos-down'' ''us-south'', True),
           (CallNewS3Client 1 ''cos-images'' ''us-south'', False), (CallListBuckets 1, False)],
          Return (Some cos_images, Some s3_images))"
    by (simp add: cos_probe_def cloud_listing_def account_defs flags_def crn_cos logged_def errored_def)
  show ?thesis
    using a b c v u e p by (simp add: filter_empty_conv)
qed

text \<open>
  C5. When \<open>RunE\<close> reaches the scan and the scan finds a COS instance whose ID is set,
  \<open>RunE\<close> asks the client of that instance whether the object \<open>opt.ImageFilename\<close> is in
  the bucket \<open>opt.BucketName\<close>; when it is not, that call is the last one, \<open>RunE\<close>
  returns the error \<open>failed to found the object\<close>, and no call of the run provisions the
  credential or imports the image.
\<close>

theorem object_check:
  assumes "scans p opt apikey bxCli rc resources"
    and "cosOfBucket p bxCli opt 0 None resources = (evs, Return (Some cos, Some s3))"
    and "ri_ID cos = Some cosID"
  shows "(CallCheckIfObjectExists (BucketName opt) (ImageFilename opt),
          \<not> s3_CheckIfObjectExists s3 (BucketName opt) (ImageFilename opt)) \<in> set (fst (RunE p opt apikey))
       \<and> (\<not> s3_CheckIfObjectExists s3 (BucketName opt) (ImageFilename opt) \<longrightarrow>
            RunE p opt apikey =
              (setup_events apikey @ evs
                 @ [(CallCheckIfObjectExists (BucketName opt) (ImageFilename opt), True)],
               Return (Some (Error (''failed to found the object '' @ ImageFilename opt
                                      @ '' in '' @ BucketName opt @ '' bucket''))))
            \<and> (\<forall>ev \<in> set (fst (RunE p opt apikey)). \<not> provisions_or_imports (fst ev)))"
proof -
  note r = RunE_found[OF assms]
  have a: "(CallCheckIfObjectExists (BucketName opt) (ImageFilename opt),
          \<not> s3_CheckIfObjectExists s3 (BucketName opt) (ImageFilename opt)) \<in> set (fst (RunE p opt apikey))"
    unfolding r by (simp split: prod.splits outcome.splits sum.splits)
  have b: "\<forall>ev \<in> set evs. \<not> provisions_or_imports (fst ev)"
    using scan_events_kind[OF assms(2)] by blast
  have c: "\<not> s3_CheckIfObjectExists s3 (BucketName opt) (ImageFilename opt) \<longrightarrow>
            RunE p opt apikey =
              (setup_events apikey @ evs
                 @ [(CallCheckIfObjectExists (BucketName opt) (ImageFilename opt), True)],
               Return (Some (Error (''failed to found the object '' @ ImageFilename opt
                                      @ '' in '' @ BucketName opt @ '' bucket''))))
            \<and> (\<forall>ev \<in> set (fst (RunE p opt apikey)). \<not> provisions_or_imports (fst ev))"
    using b unfolding r by (auto simp: setup_events_def)
  show ?thesis using a c by blast
qed

theorem object_check_witness:
  "RunE (cloud []) (flags \<lparr> ImageFilename := ''missing.ova'' \<rparr>) ''key'' =
     (setup_events ''key'' @ scan_of_images @ [(CallCheckIfObjectExists ''images'' ''missing.ova'', True)],
      Return (Some (Error ''failed to found the object missing.ova in images bucket'')))"
proof -
  have s: "scans (cloud []) (flags \<lparr> ImageFilename := ''missing.ova'' \<rparr>) ''key'' (Some 1) (controller [])
             [workspace, cos_down, cos_logs, cos_images]"
    by (rule account_scans) (simp_all add: flags_def)
  have c: "cosOfBucket (cloud []) (Some 1) (flags \<lparr> ImageFilename := ''missing.ova'' \<rparr>) 0 None
             [workspace, cos_down, cos_logs, cos_images]
           = (scan_of_images, Return (Some cos_images, Some s3_images))"
    by (rule account_scan_of_images) (simp_all add: flags_def)
  have i: "ri_ID cos_images = Some ''id-images''"
    by (simp add: cos_images_def)
  have m: "\<not> s3_CheckIfObjectExists s3_images (BucketName (flags \<lparr> ImageFilename := ''missing.ova'' \<rparr>))
               (ImageFilename (flags \<lparr> ImageFilename := ''missing.ova'' \<rparr>))"
    by (simp add: s3_images_def s3_with_def flags_def)
  have b: "BucketName (flags \<lparr> ImageFilename := ''missing.ova'' \<rparr>) = ''images''"
    by (simp add: flags_def)
  show ?thesis
    using object_check[OF s c i] m b by simp
qed

text \<open>
  C4. When \<open>RunE\<close> has found the COS instance and the object, one of the two key flags
  is empty, and the resource keys named \<open>opt.ServiceCredName\<close> are listed without error:
  when a key is listed, no resource key is created; when none is, a resource key of that
  name is created on the COS instance with the parameter \<open>HMAC\<close> set to true. Every
  image post of the run carries the access and secret key unmarshalled from the property
  \<open>cos_hmac_keys\<close> of the credential used, and when these are read without error the
  run goes on to the import with them.
\<close>

theorem service_credential_reuse_or_create:
  assumes "scans p opt apikey bxCli rc resources"
    and "cosOfBucket p bxCli opt 0 None resources = (evs, Return (Some cos, Some s3))"
    and "ri_ID cos = Some cosID"
    and "s3_CheckIfObjectExists s3 (BucketName opt) (ImageFilename opt)"
    and "AccessKey opt = '''' \<or> SecretKey opt = ''''"
    and "rc_ListResourceKeys rc (ServiceCredName opt) = (Some keys, None)"
  shows "(CallListResourceKeys (ServiceCredName opt), False) \<in> set (fst (RunE p opt apikey))
       \<and> (rkl_Resources keys \<noteq> [] \<longrightarrow>
            (\<forall>ev \<in> set (fst (RunE p opt apikey)). \<forall>x y z. fst ev \<noteq> CallCreateResourceKey x y z))
       \<and> (rkl_Resources keys = [] \<longrightarrow>
            (CallCreateResourceKey (ServiceCredName opt) cosID [(''HMAC'', True)],
             errored (snd (rc_CreateResourceKey rc (ServiceCredName opt) cosID [(''HMAC'', True)])))
              \<in> set (fst (RunE p opt apikey)))
       \<and> (\<forall>iid body failed. (CallImagesPost iid body, failed) \<in> set (fst (RunE p opt apikey)) \<longrightarrow>
            (\<exists>cred h. credential_used rc opt cosID keys = Some cred
               \<and> json_Unmarshal p (fst (json_Marshal p (cred_GetProperty cred ''cos_hmac_keys''))) = (h, None)
               \<and> body_AccessKey body = AccessKeyID h \<and> body_SecretKey body = SecretKeyID h))
       \<and> (\<forall>cred h. credential_used rc opt cosID keys = Some cred
               \<and> snd (json_Marshal p (cred_GetProperty cred ''cos_hmac_keys'')) = None
               \<and> json_Unmarshal p (fst (json_Marshal p (cred_GetProperty cred ''cos_hmac_keys''))) = (h, None)
             \<longrightarrow> (\<exists>pre. RunE p opt apikey =
                    (pre @ fst (import_image p opt bxCli (AccessKeyID h) (SecretKeyID h)),
                     snd (import_image p opt bxCli (AccessKeyID h) (SecretKeyID h)))))"
proof -
  obtain evc outc where sc: "service_credential p opt rc cosID = (evc, outc)"
    by (cases "service_credential p opt rc cosID")
  note l = service_credential_listed[OF assms(5,6), of p cosID]
  let ?check = "(CallCheckIfObjectExists (BucketName opt) (ImageFilename opt), False)"
  let ?create = "rc_CreateResourceKey rc (ServiceCredName opt) cosID [(''HMAC'', True)]"
  have r: "RunE p opt apikey =
        (case outc of
           Return (Inr (ak, sk)) \<Rightarrow>
             (setup_events apikey @ evs @ ?check # evc @ fst (import_image p opt bxCli ak sk),
              snd (import_image p opt bxCli ak sk))
         | Return (Inl e) \<Rightarrow> (setup_events apikey @ evs @ ?check # evc, Return (Some e))
         | Exit k \<Rightarrow> (setup_events apikey @ evs @ ?check # evc, Exit k)
         | Panic x \<Rightarrow> (setup_events apikey @ evs @ ?check # evc, Panic x))"
    using RunE_found[OF assms(1,2,3)] assms(4) sc
    by (simp split: outcome.splits sum.splits prod.splits)
  have evc: "evc = (if rkl_Resources keys = [] then
                      [(CallListResourceKeys (ServiceCredName opt), False),
                       (CallCreateResourceKey (ServiceCredName opt) cosID [(''HMAC'', True)],
                        errored (snd ?create))]
                    else [(CallListResourceKeys (ServiceCredName opt), False)])"
    using l sc by (auto split: list.splits prod.splits)
  have outc: "\<And>ak sk. outc = Return (Inr (ak, sk)) \<longleftrightarrow>
                 hmac_of_credential p (credential_used rc opt cosID keys) = Return (Inr (ak, sk))"
    using l sc
    by (auto simp: credential_used_def hmac_of_credential_def split: list.splits prod.splits option.splits)
  have sk: "\<forall>ev \<in> set evs. \<not> after_scan (fst ev)"
    using scan_events_kind[OF assms(2)] by blast
  have trace_sub: "set (fst (RunE p opt apikey))
          \<subseteq> set (setup_events apikey) \<union> set evs \<union> {?check} \<union> set evc
             \<union> (case outc of Return (Inr (ak, sk)) \<Rightarrow> set (fst (import_image p opt bxCli ak sk)) | _ \<Rightarrow> {})"
    unfolding r by (auto split: outcome.splits sum.splits)
  have a0: "(CallListResourceKeys (ServiceCredName opt), False) \<in> set (fst (RunE p opt apikey))"
    unfolding r using evc by (auto split: outcome.splits sum.splits)
  have a: "rkl_Resources keys \<noteq> [] \<longrightarrow>
            (\<forall>ev \<in> set (fst (RunE p opt apikey)). \<forall>x y z. fst ev \<noteq> CallCreateResourceKey x y z)"
  proof (intro impI ballI allI)
    fix ev x y z
    assume ne: "rkl_Resources keys \<noteq> []" and m: "ev \<in> set (fst (RunE p opt apikey))"
    show "fst ev \<noteq> CallCreateResourceKey x y z"
    proof
      assume eq: "fst ev = CallCreateResourceKey x y z"
      from m trace_sub
      consider "ev \<in> set (setup_events apikey)" | "ev \<in> set evs" | "ev = ?check" | "ev \<in> set evc"
        | ak sk where "outc = Return (Inr (ak, sk))" "ev \<in> set (fst (import_image p opt bxCli ak sk))"
        by (auto split: outcome.splits sum.splits)
      then show False
      proof cases
        case 1 then show ?thesis using eq by (auto simp: setup_events_def)
      next
        case 2 then show ?thesis using eq sk by auto
      next
        case 3 then show ?thesis using eq by simp
      next
        case 4 then show ?thesis using eq evc ne by auto
      next
        case 5
        obtain evi outi where i: "import_image p opt bxCli ak sk = (evi, outi)"
          by (cases "import_image p opt bxCli ak sk")
        with 5(2) have "ev \<in> set evi" by simp
        from import_image_events[OF i this] eq show ?thesis by auto
      qed
    qed
  qed
  have b: "rkl_Resources keys = [] \<longrightarrow>
            (CallCreateResourceKey (ServiceCredName opt) cosID [(''HMAC'', True)], errored (snd ?create))
              \<in> set (fst (RunE p opt apikey))"
    unfolding r using evc by (auto split: outcome.splits sum.splits)
  have c: "\<forall>iid body failed. (CallImagesPost iid body, failed) \<in> set (fst (RunE p opt apikey)) \<longrightarrow>
            (\<exists>cred h. credential_used rc opt cosID keys = Some cred
               \<and> json_Unmarshal p (fst (json_Marshal p (cred_GetProperty cred ''cos_hmac_keys''))) = (h, None)
               \<and> body_AccessKey body = AccessKeyID h \<and> body_SecretKey body = SecretKeyID h)"
  proof (intro allI impI)
    fix iid body failed
    assume m: "(CallImagesPost iid body, failed) \<in> set (fst (RunE p opt apikey))"
    from m trace_sub
    consider "(CallImagesPost iid body, failed) \<in> set (setup_events apikey)"
      | "(CallImagesPost iid body, failed) \<in> set evs"
      | "(CallImagesPost iid body, failed) \<in> set evc"
      | ak sk where "outc = Return (Inr (ak, sk))"
          "(CallImagesPost iid body, failed) \<in> set (fst (import_image p opt bxCli ak sk))"
      by (auto split: outcome.splits sum.splits)
    then show "\<exists>cred h. credential_used rc opt cosID keys = Some cred
               \<and> json_Unmarshal p (fst (json_Marshal p (cred_GetProperty cred ''cos_hmac_keys''))) = (h, None)
               \<and> body_AccessKey body = AccessKeyID h \<and> body_SecretKey body = SecretKeyID h"
    proof cases
      case 1 then show ?thesis by (auto simp: setup_events_def)
    next
      case 2 then show ?thesis using sk by auto
    next
      case 3 then show ?thesis using evc by (auto split: if_splits)
    next
      case 4
      obtain evi outi where i: "import_image p opt bxCli ak sk = (evi, outi)"
        by (cases "import_image p opt bxCli ak sk")
      from 4(2) i have "(CallImagesPost iid body, failed) \<in> set evi" by simp
      from import_image_events[OF i this]
      have body: "body = request_body (ImageName opt) (ImageFilename opt) (Region opt) ak sk (BucketName opt)
                 (strings_ToLower p (OsType opt)) (strings_ToLower p (StorageType opt))"
        by auto
      from 4(1) outc have "hmac_of_credential p (credential_used rc opt cosID keys) = Return (Inr (ak, sk))"
        by simp
      then obtain cr h where "credential_used rc opt cosID keys = Some cr"
        "json_Unmarshal p (fst (json_Marshal p (cred_GetProperty cr ''cos_hmac_keys''))) = (h, None)"
        "ak = AccessKeyID h" "sk = SecretKeyID h"
        unfolding hmac_of_credential_Inr by blast
      then show ?thesis using body by (auto simp: request_body_def Let_def)
    qed
  qed
  have d: "\<forall>cred h. credential_used rc opt cosID keys = Some cred
               \<and> snd (json_Marshal p (cred_GetProperty cred ''cos_hmac_keys'')) = None
               \<and> json_Unmarshal p (fst (json_Marshal p (cred_GetProperty cred ''cos_hmac_keys''))) = (h, None)
             \<longrightarrow> (\<exists>pre. RunE p opt apikey =
                    (pre @ fst (import_image p opt bxCli (AccessKeyID h) (SecretKeyID h)),
                     snd (import_image p opt bxCli (AccessKeyID h) (SecretKeyID h))))"
  proof (intro allI impI, elim conjE)
    fix cred h
    assume "credential_used rc opt cosID keys = Some cred"
      "snd (json_Marshal p (cred_GetProperty cred ''cos_hmac_keys'')) = None"
      "json_Unmarshal p (fst (json_Marshal p (cred_GetProperty cred ''cos_hmac_keys''))) = (h, None)"
    then have "hmac_of_credential p (credential_used rc opt cosID keys)
                 = Return (Inr (AccessKeyID h, SecretKeyID h))"
      unfolding hmac_of_credential_Inr by simp
    then have "outc = Return (Inr (AccessKeyID h, SecretKeyID h))"
      using outc by simp
    then have "RunE p opt apikey =
        ((setup_events apikey @ evs @ ?check # evc) @ fst (import_image p opt bxCli (AccessKeyID h) (SecretKeyID h)),
         snd (import_image p opt bxCli (AccessKeyID h) (SecretKeyID h)))"
      unfolding r by simp
    then show "\<exists>pre. RunE p opt apikey =
                    (pre @ fst (import_image p opt bxCli (AccessKeyID h) (SecretKeyID h)),
                     snd (import_image p opt bxCli (AccessKeyID h) (SecretKeyID h)))"
      by blast
  qed
  show ?thesis using a0 a b c d by blast
qed

theorem service_credential_reuse_or_create_witness:
  "(CallCreateResourceKey ''pvsadm-service-cred'' ''id-images'' [(''HMAC'', True)], False)
      \<in> set (fst (RunE (cloud []) flags ''key''))
   \<and> (\<exists>pre. RunE (cloud []) flags ''key'' =
          (pre @ fst (import_image (cloud []) flags (Some 1) ''AK-new'' ''SK-new''),
           snd (import_image (cloud []) flags (Some 1) ''AK-new'' ''SK-new'')))
   \<and> filter (\<lambda>ev. case fst ev of CallCreateResourceKey name source parameters \<Rightarrow> True | _ \<Rightarrow> False)
        (fst (RunE (cloud [\<lparr> key_Credentials = Some (hmac_credential ''AK-old'' ''SK-old'') \<rparr>]) flags ''key''))
        = []
   \<and> (\<exists>pre. RunE (cloud [\<lparr> key_Credentials = Some (hmac_credential ''AK-old'' ''SK-old'') \<rparr>]) flags ''key'' =
          (pre @ fst (import_image (cloud [\<lparr> key_Credentials = Some (hmac_credential ''AK-old'' ''SK-old'') \<rparr>])
                        flags (Some 1) ''AK-old'' ''SK-old''),
           snd (import_image (cloud [\<lparr> key_Credentials = Some (hmac_credential ''AK-old'' ''SK-old'') \<rparr>])
                  flags (Some 1) ''AK-old'' ''SK-old'')))"
proof -
  let ?old = "[\<lparr> key_Credentials = Some (hmac_credential ''AK-old'' ''SK-old'') \<rparr>]"
  have s: "\<And>existing. scans (cloud existing) flags ''key'' (Some 1) (controller existing)
             [workspace, cos_down, cos_logs, cos_images]"
    by (rule account_scans) (simp_all add: flags_def)
  have c: "\<And>existing. cosOfBucket (cloud existing) (Some 1) flags 0 None
             [workspace, cos_down, cos_logs, cos_images]
           = (scan_of_images, Return (Some cos_images, Some s3_images))"
    by (rule account_scan_of_images) (simp_all add: flags_def)
  have i: "ri_ID cos_images = Some ''id-images''"
    by (simp add: cos_images_def)
  have x: "s3_CheckIfObjectExists s3_images (BucketName flags) (ImageFilename flags)"
    by (simp add: s3_images_def s3_with_def flags_def)
  have k: "AccessKey flags = '''' \<or> SecretKey flags = ''''"
    by (simp add: flags_def)
  have l: "\<And>existing. rc_ListResourceKeys (controller existing) (ServiceCredName flags)
             = (Some \<lparr> rkl_Resources = existing \<rparr>, None)"
    by (simp add: controller_def flags_def)
  note new = service_credential_reuse_or_create[OF s c i x k l, of "[]"]
  note old = service_credential_reuse_or_create[OF s c i x k l, of ?old]
  have n: "ServiceCredName flags = ''pvsadm-service-cred''"
    by (simp add: flags_def)
  have cr: "errored (snd (rc_CreateResourceKey (controller []) ''pvsadm-service-cred'' ''id-images''
                            [(''HMAC'', True)])) = False"
    by (simp add: controller_def errored_def)
  have un: "credential_used (controller []) flags ''id-images'' \<lparr> rkl_Resources = [] \<rparr>
              = Some (hmac_credential ''AK-new'' ''SK-new'')"
    by (simp add: credential_used_def controller_def)
  have uo: "credential_used (controller ?old) flags ''id-images'' \<lparr> rkl_Resources = ?old \<rparr>
              = Some (hmac_credential ''AK-old'' ''SK-old'')"
    by (simp add: credential_used_def)
  have j: "\<And>existing a b.
             snd (json_Marshal (cloud existing) (cred_GetProperty (hmac_credential a b) ''cos_hmac_keys'')) = None
             \<and> fst (json_Marshal (cloud existing) (cred_GetProperty (hmac_credential a b) ''cos_hmac_keys''))
                 = a @ '' '' @ b"
    by (simp add: cloud_def hmac_credential_def)
  have u: "\<And>existing. json_Unmarshal (cloud existing) (''AK-new'' @ '' '' @ ''SK-new'')
                = (\<lparr> AccessKeyID = ''AK-new'', SecretKeyID = ''SK-new'' \<rparr>, None)
             \<and> json_Unmarshal (cloud existing) (''AK-old'' @ '' '' @ ''SK-old'')
                = (\<lparr> AccessKeyID = ''AK-old'', SecretKeyID = ''SK-old'' \<rparr>, None)"
    by (simp add: cloud_def)
  have a1: "(CallCreateResourceKey ''pvsadm-service-cred'' ''id-images'' [(''HMAC'', True)], False)
      \<in> set (fst (RunE (cloud []) flags ''key''))"
    using new n cr by simp
  have a2: "\<exists>pre. RunE (cloud []) flags ''key'' =
          (pre @ fst (import_image (cloud []) flags (Some 1) ''AK-new'' ''SK-new''),
           snd (import_image (cloud []) flags (Some 1) ''AK-new'' ''SK-new''))"
    using new un j u by fastforce
  have a3: "filter (\<lambda>ev. case fst ev of CallCreateResourceKey name source parameters \<Rightarrow> True | _ \<Rightarrow> False)
        (fst (RunE (cloud ?old) flags ''key'')) = []"
    using old by (auto simp: filter_empty_conv split: call.splits)
  have a4: "\<exists>pre. RunE (cloud ?old) flags ''key'' =
          (pre @ fst (import_image (cloud ?old) flags (Some 1) ''AK-old'' ''SK-old''),
           snd (import_image (cloud ?old) flags (Some 1) ''AK-old'' ''SK-old''))"
    using old uo j u by fastforce
  show ?thesis
    using a1 a2 a3 a4 by blast
qed

text \<open>
  C7. In a run of \<open>RunE\<close> no call is made twice and no call is retried: a call that
  failed is the last call of the run, or it is a call of the bucket scan and the next
  call is \<open>NewS3Client\<close> for an instance further down the list; when the last call
  failed and is not a call of the scan, \<open>RunE\<close> returns an error. \<open>Get\<close>, \<open>GetAll\<close>
  and \<open>Delete\<close> make one call and return what it returned; \<open>ImportImage\<close> makes at most
  one call and \<open>GetAllPurgeable\<close> one, and each returns an error when its call failed.
\<close>

theorem no_call_is_retried:
  "distinct (map fst (fst (RunE p opt apikey)))
   \<and> no_retry (fst (RunE p opt apikey))
   \<and> (\<forall>c. fst (RunE p opt apikey) \<noteq> [] \<and> last (fst (RunE p opt apikey)) = (c, True)
            \<and> scan_position c = None
          \<longrightarrow> (\<exists>e. snd (RunE p opt apikey) = Return (Some e)))
   \<and> fst (Get cl id') = [(CallGet id' (instanceID cl), errored (snd (snd (Get cl id'))))]
   \<and> fst (GetAll cl) = [(CallGetAll (instanceID cl), errored (snd (snd (GetAll cl))))]
   \<and> fst (Delete cl id') = [(CallDelete id' (instanceID cl), errored (snd (Delete cl id')))]
   \<and> length (fst (ImportImage cl iid imageName s3Filename region accessKey secretKey bucketName osType
                     storageType)) \<le> 1
   \<and> (\<forall>c. (c, True) \<in> set (fst (ImportImage cl iid imageName s3Filename region accessKey secretKey
                                     bucketName osType storageType))
          \<longrightarrow> (\<exists>e. snd (ImportImage cl iid imageName s3Filename region accessKey secretKey bucketName
                             osType storageType) = Return (None, Some e)))
   \<and> length (fst (GetAllPurgeable lib cl before since expr)) = 1
   \<and> (\<forall>c. (c, True) \<in> set (fst (GetAllPurgeable lib cl before since expr))
          \<longrightarrow> (\<exists>e. snd (GetAllPurgeable lib cl before since expr) = Return ([], Some e)))"
proof -
  have g: "fst (Get cl id') = [(CallGet id' (instanceID cl), errored (snd (snd (Get cl id'))))]"
    by (simp add: Get_def Let_def)
  have ga: "fst (GetAll cl) = [(CallGetAll (instanceID cl), errored (snd (snd (GetAll cl))))]"
    by (simp add: GetAll_def Let_def)
  have dl: "fst (Delete cl id') = [(CallDelete id' (instanceID cl), errored (snd (Delete cl id')))]"
    by (simp add: Delete_def Let_def)
  obtain evs out where i: "ImportImage cl iid imageName s3Filename region accessKey secretKey bucketName
                              osType storageType = (evs, out)"
    by (cases "ImportImage cl iid imageName s3Filename region accessKey secretKey bucketName osType storageType")
  have im: "length evs \<le> 1 \<and> (\<forall>c. (c, True) \<in> set evs \<longrightarrow> (\<exists>e. out = Return (None, Some e)))"
    using ImportImage_trace[OF i] by auto
  have gp: "length (fst (GetAllPurgeable lib cl before since expr)) = 1
     \<and> (\<forall>c. (c, True) \<in> set (fst (GetAllPurgeable lib cl before since expr))
          \<longrightarrow> (\<exists>e. snd (GetAllPurgeable lib cl before since expr) = Return ([], Some e)))"
    by (auto simp: GetAllPurgeable_def GetAll_def Let_def errored_def split: prod.splits option.splits)
  show ?thesis
    using RunE_trace[of p opt apikey] g ga dl im gp unfolding i by simp
qed

theorem no_call_is_retried_witness:
  "distinct (map fst (fst (RunE (cloud []) (flags \<lparr> ServiceCredName := ''forbidden'' \<rparr>) ''key'')))
   \<and> no_retry (fst (RunE (cloud []) (flags \<lparr> ServiceCredName := ''forbidden'' \<rparr>) ''key''))
   \<and> fst (RunE (cloud []) (flags \<lparr> ServiceCredName := ''forbidden'' \<rparr>) ''key'') =
        setup_events ''key'' @ scan_of_images
          @ [(CallCheckIfObjectExists ''images'' ''rhel-83.ova.gz'', False),
             (CallListResourceKeys ''forbidden'', True)]
   \<and> snd (RunE (cloud []) (flags \<lparr> ServiceCredName := ''forbidden'' \<rparr>) ''key'') =
        Return (Some (Error ''failed to list the service credentials: 403 Forbidden''))
   \<and> GetAllPurgeable literal_library failing_client 0 0 '''' =
        ([(CallGetAll ''pvs-1'', True)],
         Return ([], Some (Error ''failed to get the list of instances: timeout'')))"
proof -
  have t: "fst (RunE (cloud []) (flags \<lparr> ServiceCredName := ''forbidden'' \<rparr>) ''key'') =
        setup_events ''key'' @ scan_of_images
          @ [(CallCheckIfObjectExists ''images'' ''rhel-83.ova.gz'', False),
             (CallListResourceKeys ''forbidden'', True)]"
    by code_simp
  have r: "snd (RunE (cloud []) (flags \<lparr> ServiceCredName := ''forbidden'' \<rparr>) ''key'') =
        Return (Some (Error ''failed to list the service credentials: 403 Forbidden''))"
    by code_simp
  have g: "GetAllPurgeable literal_library failing_client 0 0 '''' =
        ([(CallGetAll ''pvs-1'', True)],
         Return ([], Some (Error ''failed to get the list of instances: timeout'')))"
    by code_simp
  show ?thesis
    using no_call_is_retried[of "cloud []" "flags \<lparr> ServiceCredName := ''forbidden'' \<rparr>" "''key''"
            failing_client "''x''" "''pvs-1''" "''a''" "''b''" "''c''" "''d''" "''e''" "''f''" "''g''" "''h''"
            literal_library 0 0 "''''"]
          t r g
    by simp
qed

end
